theory Spec2Isabelle
  imports Complex_Main "HOL-Library.Sublist"
begin

section \<open>Python values, dictionaries and exceptions\<close>

text \<open>
  Both scripts build flat dictionaries whose values are strings, integers, floats or
  booleans. A Python \<open>str\<close> is modelled as a \<^typ>\<open>string\<close>, one \<^typ>\<open>char\<close> per
  character (text beyond the first 256 code points is outside the model), so
  \<^const>\<open>length\<close> is Python's \<open>len\<close>. Floats are only carried from the
  source object into the dictionary, never computed with, and are modelled as reals.
  A \<open>dict\<close> keeps insertion order, so it is an association list with distinct keys.

  A function is described by what it returns or raises and by what it leaves in the
  file system. What is printed is not recorded, but a \<open>print\<close> can fail, and that is
  part of the model (see the console below). The pauses between items (\<open>time.sleep\<close>)
  are left out.
\<close>

datatype pyval = PyStr string | PyInt int | PyFloat real | PyBool bool

type_synonym pydict = "(string \<times> pyval) list"

text \<open>
  The exception classes that occur. \<open>KeyboardInterrupt\<close> and \<open>SystemExit\<close> derive from
  \<open>BaseException\<close> only, so a clause \<open>except Exception\<close> does not catch them;
  \<open>HTTPError\<close> and \<open>ConnectionError\<close> derive from \<open>requests.RequestException\<close>.
  \<open>UnicodeEncodeError\<close> stands for what a failing \<open>print\<close> raises.
\<close>

datatype exn =
    OSError
  | KeyError string
  | ValueError
  | IndexError
  | RequestException
  | HTTPError
  | ConnectionError
  | PrawcoreException
  | UnicodeEncodeError
  | KeyboardInterrupt
  | SystemExit

fun is_Exception :: "exn \<Rightarrow> bool" where
  "is_Exception KeyboardInterrupt = False"
| "is_Exception SystemExit = False"
| "is_Exception _ = True"

fun is_RequestException :: "exn \<Rightarrow> bool" where
  "is_RequestException RequestException = True"
| "is_RequestException HTTPError = True"
| "is_RequestException ConnectionError = True"
| "is_RequestException _ = False"

definition keys :: "pydict \<Rightarrow> string list" where
  "keys d = map fst d"

text \<open>\<open>d[k]\<close>: the value stored under \<open>k\<close>, or \<open>KeyError\<close>.\<close>

definition getitem :: "pydict \<Rightarrow> string \<Rightarrow> exn + pyval" where
  "getitem d k = (case map_of d k of None \<Rightarrow> Inl (KeyError k) | Some v \<Rightarrow> Inr v)"

text \<open>\<open>d.get(k, default)\<close>.\<close>

definition get_default :: "pydict \<Rightarrow> string \<Rightarrow> pyval \<Rightarrow> pyval" where
  "get_default d k dflt = (case map_of d k of None \<Rightarrow> dflt | Some v \<Rightarrow> v)"

subsection \<open>The console\<close>

text \<open>
  Every message of the two scripts goes to the console through \<open>print\<close>, and a \<open>print\<close>
  raises when the console cannot take the message: nearly every message opens with a
  symbol that many console encodings lack. The console is given as the set of \<open>print\<close>
  statements that succeed, a statement being named by its line in its script; a
  statement that runs more than once in a call fares the same each time. A failing
  \<open>print\<close> raises an exception of class \<open>Exception\<close>.
\<close>

type_synonym console = "nat \<Rightarrow> bool"

definition py_print :: "console \<Rightarrow> nat \<Rightarrow> exn option" where
  "py_print console line = (if console line then None else Some UnicodeEncodeError)"

text \<open>Several \<open>print\<close> statements in a row: the first that fails raises.\<close>

fun print_lines :: "console \<Rightarrow> nat list \<Rightarrow> exn option" where
  "print_lines console [] = None"
| "print_lines console (line # rest) =
     (case py_print console line of Some pe \<Rightarrow> Some pe | None \<Rightarrow> print_lines console rest)"

text \<open>A \<open>print\<close> before a computation, and a \<open>print\<close> after one that did not raise.\<close>

definition after_print :: "console \<Rightarrow> nat \<Rightarrow> exn + 'a \<Rightarrow> exn + 'a" where
  "after_print console line rest =
     (case py_print console line of Some pe \<Rightarrow> Inl pe | None \<Rightarrow> rest)"

definition then_print :: "console \<Rightarrow> nat \<Rightarrow> exn + 'a \<Rightarrow> exn + 'a" where
  "then_print console line r =
     (case r of
        Inl e \<Rightarrow> Inl e
      | Inr v \<Rightarrow> (case py_print console line of Some pe \<Rightarrow> Inl pe | None \<Rightarrow> Inr v))"

text \<open>The console that takes every message, and the one that takes none.\<close>

definition prints_all :: console where
  "prints_all line = True"


section \<open>String operations\<close>

text \<open>\<open>s.startswith(p)\<close>.\<close>

fun startswith :: "string \<Rightarrow> string \<Rightarrow> bool" where
  "startswith s [] = True"
| "startswith [] (p # ps) = False"
| "startswith (c # s) (p # ps) = (c = p \<and> startswith s ps)"

text \<open>\<open>sub in s\<close>: \<open>sub\<close> occurs in \<open>s\<close> as a contiguous substring.\<close>

fun str_in :: "string \<Rightarrow> string \<Rightarrow> bool" where
  "str_in sub [] = (sub = [])"
| "str_in sub (c # s) = (startswith (c # s) sub \<or> str_in sub s)"

text \<open>
  \<open>s.strip()\<close> removes the characters for which \<open>isspace\<close> holds from both ends:
  among the first 256 code points these are 9 to 13, 28 to 32, 133 and 160.
\<close>

definition isspace :: "char \<Rightarrow> bool" where
  "isspace c = (let n = (of_char c :: nat) in
     (9 \<le> n \<and> n \<le> 13) \<or> (28 \<le> n \<and> n \<le> 32) \<or> n = 133 \<or> n = 160)"

definition strip :: "string \<Rightarrow> string" where
  "strip s = rev (dropWhile isspace (rev (dropWhile isspace s)))"


section \<open>The news scraper (toi_scraper.py)\<close>

subsection \<open>What the HTML adapter delivers\<close>

text \<open>
  \<open>soup.find_all('a', href=True)\<close> yields the anchors that have an \<open>href\<close>. Of each anchor
  the loop reads the \<open>href\<close>, the text (\<open>get_text()\<close>) and the first \<open>img\<close> inside it, if
  any, with its \<open>src\<close> attribute, if any.
\<close>

datatype img = Img "string option"

record anchor =
  href :: string
  get_text :: string
  find_img :: "img option"

definition base_url :: string where
  "base_url = ''https://timesofindia.indiatimes.com''"

text \<open>Line 46: the absolute URL of an anchor.\<close>

definition full_url_of :: "string \<Rightarrow> string" where
  "full_url_of h = (if startswith h ''http'' then h else base_url @ h)"

text \<open>Lines 49 to 54: the image URL, empty when there is none.\<close>

definition img_url_of :: "img option \<Rightarrow> string" where
  "img_url_of img_element =
     (case img_element of
        None \<Rightarrow> ''''
      | Some (Img src) \<Rightarrow>
          (let img_url = (case src of None \<Rightarrow> '''' | Some s \<Rightarrow> s)
           in if img_url \<noteq> '''' \<and> \<not> startswith img_url ''http''
              then ''https:'' @ img_url else img_url))"

text \<open>Lines 57 to 67: the category, the first branch that matches wins.\<close>

definition category_of :: "string \<Rightarrow> string" where
  "category_of full_url =
     (if str_in ''/india/'' full_url then ''India News''
      else if str_in ''/world/'' full_url then ''World News''
      else if str_in ''/sports/'' full_url then ''Sports''
      else if str_in ''/business/'' full_url then ''Business''
      else if str_in ''/entertainment/'' full_url then ''Entertainment''
      else ''Other'')"

text \<open>Lines 69 to 76: the dictionary appended for an accepted anchor.\<close>

definition article_dict :: "string \<Rightarrow> string \<Rightarrow> string \<Rightarrow> string \<Rightarrow> string \<Rightarrow> pydict" where
  "article_dict title full_url img_url category now =
     [(''title'', PyStr title), (''url'', PyStr full_url), (''image'', PyStr img_url),
      (''category'', PyStr category), (''source'', PyStr ''Times of India''),
      (''scraped_at'', PyStr now)]"

text \<open>
  Lines 36 to 76. The clock is read once for each accepted anchor; \<open>clock n\<close> is the
  formatted time of the \<open>n\<close>-th reading.
\<close>

fun collect_articles :: "(nat \<Rightarrow> string) \<Rightarrow> anchor list \<Rightarrow> pydict list \<Rightarrow> pydict list" where
  "collect_articles clock [] news_articles = news_articles"
| "collect_articles clock (link # links) news_articles =
     (if str_in ''articleshow'' (href link) then
        (let title = strip (get_text link) in
         if title \<noteq> '''' \<and> length title > 15 then
           (let full_url = full_url_of (href link);
                img_url = img_url_of (find_img link);
                category = category_of full_url
            in collect_articles clock links
                 (news_articles @
                    [article_dict title full_url img_url category (clock (length news_articles))]))
         else collect_articles clock links news_articles)
      else collect_articles clock links news_articles)"

text \<open>Lines 79 to 86: the duplicate filter, with its set of URLs seen so far.\<close>

fun dedupe_loop :: "pydict list \<Rightarrow> pyval set \<Rightarrow> pydict list \<Rightarrow> exn + pydict list" where
  "dedupe_loop [] seen_urls unique_articles = Inr unique_articles"
| "dedupe_loop (article # rest) seen_urls unique_articles =
     (case getitem article ''url'' of
        Inl e \<Rightarrow> Inl e
      | Inr u \<Rightarrow>
          if u \<notin> seen_urls
          then dedupe_loop rest (insert u seen_urls) (unique_articles @ [article])
          else dedupe_loop rest seen_urls unique_articles)"

definition dedupe :: "pydict list \<Rightarrow> exn + pydict list" where
  "dedupe news_articles = dedupe_loop news_articles {} []"


text \<open>
  The two handlers of lines 88 to 93: an exception of class \<open>RequestException\<close>, and then
  any other of class \<open>Exception\<close>, is reported (lines 89 and 92) and ends the call with
  the empty list. When the report cannot be printed, the \<open>print\<close> raises out of the
  handler.
\<close>

definition scrape_handlers :: "console \<Rightarrow> exn + pydict list \<Rightarrow> exn + pydict list" where
  "scrape_handlers console body =
     (case body of
        Inr articles \<Rightarrow> Inr articles
      | Inl e \<Rightarrow>
          if is_RequestException e then
            (case py_print console 89 of Some pe \<Rightarrow> Inl pe | None \<Rightarrow> Inr [])
          else if is_Exception e then
            (case py_print console 92 of Some pe \<Rightarrow> Inl pe | None \<Rightarrow> Inr [])
          else Inl e)"

text \<open>
  \<open>scrape_times_of_india\<close>. The argument \<open>page\<close> is the outcome of lines 25 to 36: the
  anchors of the fetched page, or the exception raised by \<open>requests.get\<close>,
  \<open>raise_for_status\<close> or the parser. The message of line 24 precedes the request and
  that of line 28 follows \<open>raise_for_status\<close>. (The parser runs after line 28; what it
  raises is no \<open>RequestException\<close>, and neither is what a failing \<open>print\<close> raises, so an
  exception of the parser reaches the handler of line 91 whether or not line 28 could
  be printed, as it does here.)
\<close>

definition scrape_times_of_india :: "console \<Rightarrow> (nat \<Rightarrow> string) \<Rightarrow> exn + anchor list \<Rightarrow> exn + pydict list" where
  "scrape_times_of_india console clock page =
     scrape_handlers console
       (after_print console 24
          (case page of
             Inl e \<Rightarrow> Inl e
           | Inr links \<Rightarrow>
               after_print console 28 (dedupe (collect_articles clock links []))))"

text \<open>The key the duplicate filter compares, for a dictionary that has one.\<close>

definition url_of :: "pydict \<Rightarrow> pyval" where
  "url_of article = get_default article ''url'' (PyStr '''')"

definition has_url :: "pydict \<Rightarrow> bool" where
  "has_url article = (''url'' \<in> set (keys article))"

text \<open>
  The filter as the specification words it: walk the batch once, keep a record when its
  key has not been seen, drop it otherwise.
\<close>

fun keep_first :: "pyval set \<Rightarrow> pydict list \<Rightarrow> pydict list" where
  "keep_first seen [] = []"
| "keep_first seen (a # B) =
     (if url_of a \<in> seen then keep_first seen B
      else a # keep_first (insert (url_of a) seen) B)"


subsection \<open>Files and the CSV writer of the news scraper\<close>

text \<open>
  A file is the sequence of what was written to it since it was opened for writing:
  CSV rows (a row is the list of the values handed to the \<open>csv\<close> module, whose quoting
  and rendering as text is the library's), or the pieces in which \<open>json.dump\<close> writes a
  list of dictionaries, \<open>JsonPiece data k\<close> being the \<open>k\<close>-th of them. The file system
  maps a path to the file there, if any.

  The I/O failures are chosen by the environment, as the set of file operations that
  fail: the \<open>open\<close>, the write call made after \<open>n\<close> successful ones, the \<open>close\<close> at the
  end of the \<open>with\<close> block (where a buffered file reports what it could not flush).
  Any number of them may fail. A failing operation raises \<open>OSError\<close>; after a failing
  write the file keeps what was written before.
\<close>

datatype chunk = Row "pyval list" | JsonPiece "pydict list" nat

type_synonym filesystem = "string \<Rightarrow> chunk list option"

datatype file_op = Open | Write nat | Close

type_synonym io_fault = "file_op \<Rightarrow> bool"

text \<open>The environment in which no file operation fails.\<close>

definition NoFault :: io_fault where
  "NoFault op = False"

text \<open>\<open>open(filename, 'w')\<close> creates the file or empties it.\<close>

definition open_w :: "io_fault \<Rightarrow> string \<Rightarrow> filesystem \<Rightarrow> exn + filesystem" where
  "open_w fault filename fs =
     (if fault Open then Inl OSError else Inr (fs(filename \<mapsto> [])))"

definition write_chunk :: "io_fault \<Rightarrow> chunk \<Rightarrow> chunk list \<Rightarrow> exn + chunk list" where
  "write_chunk fault c written =
     (if fault (Write (length written)) then Inl OSError else Inr (written @ [c]))"

text \<open>
  \<open>with open(filename, 'w') as file:\<close> around a block. The block is given by its
  outcome on the fresh file: the exception it raised, if any, and what it wrote. The
  file is closed when the block is left, by its end or by an exception, and an
  exception of the \<open>close\<close> is the one that leaves the statement.
\<close>

definition with_open :: "io_fault \<Rightarrow> string \<Rightarrow> filesystem \<Rightarrow> exn option \<times> chunk list \<Rightarrow> exn option \<times> filesystem" where
  "with_open fault filename fs block =
     (case open_w fault filename fs of
        Inl e \<Rightarrow> (Some e, fs)
      | Inr fs1 \<Rightarrow>
          (case block of
             (raised, written) \<Rightarrow>
               (if fault Close then Some OSError else raised, fs1(filename \<mapsto> written))))"

text \<open>
  A \<open>print\<close> that follows a statement inside the \<open>try\<close> block, run when the statement
  did not raise.
\<close>

definition then_report :: "console \<Rightarrow> nat \<Rightarrow> exn option \<times> filesystem \<Rightarrow> exn option \<times> filesystem" where
  "then_report console line r =
     (case r of
        (Some e, fs) \<Rightarrow> (Some e, fs)
      | (None, fs) \<Rightarrow> (py_print console line, fs))"

text \<open>
  The end of a \<open>try\<close> block whose normal exit is \<open>return True\<close> and whose handler is
  \<open>except Exception as e: print(...); return False\<close>, the \<open>print\<close> being on the line
  given. The first component of \<open>body\<close> is the exception the block raised, if any. When
  the handler's message cannot be printed, the \<open>print\<close> raises out of the handler.
\<close>

definition except_return_False :: "console \<Rightarrow> nat \<Rightarrow> exn option \<times> filesystem \<Rightarrow> (exn + bool) \<times> filesystem" where
  "except_return_False console line body =
     (case body of
        (None, fs) \<Rightarrow> (Inr True, fs)
      | (Some e, fs) \<Rightarrow>
          if is_Exception e then
            (case py_print console line of
               Some pe \<Rightarrow> (Inl pe, fs)
             | None \<Rightarrow> (Inr False, fs))
          else (Inl e, fs))"

definition toi_header :: "pyval list" where
  "toi_header = [PyStr ''Title'', PyStr ''URL'', PyStr ''Image_URL'', PyStr ''Category'',
                 PyStr ''Source'', PyStr ''Scraped_At'']"

definition toi_columns :: "string list" where
  "toi_columns = [''title'', ''url'', ''image'', ''category'', ''source'', ''scraped_at'']"

text \<open>Lines 106 to 113: the list built for one article; a missing key raises.\<close>

fun getitems :: "pydict \<Rightarrow> string list \<Rightarrow> exn + pyval list" where
  "getitems d [] = Inr []"
| "getitems d (k # ks) =
     (case getitem d k of
        Inl e \<Rightarrow> Inl e
      | Inr v \<Rightarrow> (case getitems d ks of Inl e \<Rightarrow> Inl e | Inr vs \<Rightarrow> Inr (v # vs)))"

text \<open>Lines 105 to 113: one \<open>writerow\<close> for each article, until something raises.\<close>

fun toi_write_rows :: "io_fault \<Rightarrow> pydict list \<Rightarrow> chunk list \<Rightarrow> exn option \<times> chunk list" where
  "toi_write_rows fault [] written = (None, written)"
| "toi_write_rows fault (article # rest) written =
     (case getitems article toi_columns of
        Inl e \<Rightarrow> (Some e, written)
      | Inr row \<Rightarrow>
          (case write_chunk fault (Row row) written of
             Inl e \<Rightarrow> (Some e, written)
           | Inr written' \<Rightarrow> toi_write_rows fault rest written'))"

text \<open>Lines 99 to 113, the block of the \<open>with\<close> statement: the header, then the rows.\<close>

definition toi_with_block :: "io_fault \<Rightarrow> pydict list \<Rightarrow> exn option \<times> chunk list" where
  "toi_with_block fault articles =
     (case write_chunk fault (Row toi_header) [] of
        Inl e \<Rightarrow> (Some e, [])
      | Inr written \<Rightarrow> toi_write_rows fault articles written)"

text \<open>Lines 98 to 116, the body of the \<open>try\<close>: the \<open>with\<close> statement and the message of line 115.\<close>

definition toi_save_body :: "console \<Rightarrow> io_fault \<Rightarrow> pydict list \<Rightarrow> string \<Rightarrow> filesystem \<Rightarrow> exn option \<times> filesystem" where
  "toi_save_body console fault articles filename fs =
     then_report console 115 (with_open fault filename fs (toi_with_block fault articles))"

text \<open>\<open>save_to_csv\<close> of toi_scraper.py; its handler reports on line 119.\<close>

definition toi_save_to_csv :: "console \<Rightarrow> io_fault \<Rightarrow> pydict list \<Rightarrow> string \<Rightarrow> filesystem \<Rightarrow> (exn + bool) \<times> filesystem" where
  "toi_save_to_csv console fault articles filename fs =
     except_return_False console 119 (toi_save_body console fault articles filename fs)"

text \<open>
  The lines printed by \<open>display_statistics\<close> and \<open>display_sample_articles\<close> for a
  non-empty list of articles: the latter prints line 150 when one of the first five
  articles has an image. In \<open>main\<close> the two functions are given the articles the scraper
  built, which have every key the functions read.
\<close>

fun truthy :: "pyval \<Rightarrow> bool" where
  "truthy (PyStr s) = (s \<noteq> '''')"
| "truthy (PyInt i) = (i \<noteq> 0)"
| "truthy (PyFloat r) = (r \<noteq> 0)"
| "truthy (PyBool b) = b"

definition has_image :: "pydict \<Rightarrow> bool" where
  "has_image article = (case getitem article ''image'' of Inl e \<Rightarrow> False | Inr v \<Rightarrow> truthy v)"

definition display_statistics_lines :: "nat list" where
  "display_statistics_lines = [124, 125, 126, 127, 128, 136, 138]"

definition display_sample_articles_lines :: "pydict list \<Rightarrow> nat list" where
  "display_sample_articles_lines articles =
     [142, 143, 146, 147, 148]
     @ (if list_ex has_image (take 5 articles) then [150] else [])
     @ [151, 152]"

text \<open>
  \<open>main\<close> of toi_scraper.py. It returns before the writer is called when the scrape
  gave nothing (lines 162 to 164); it has no handler of its own.
\<close>

definition toi_main :: "console \<Rightarrow> (nat \<Rightarrow> string) \<Rightarrow> exn + anchor list \<Rightarrow> io_fault \<Rightarrow> filesystem \<Rightarrow> (exn + unit) \<times> filesystem" where
  "toi_main console clock page fault fs =
     (case print_lines console [156, 157] of
        Some pe \<Rightarrow> (Inl pe, fs)
      | None \<Rightarrow>
     (case scrape_times_of_india console clock page of
        Inl e \<Rightarrow> (Inl e, fs)
      | Inr articles \<Rightarrow>
          if articles = [] then
            (case py_print console 163 of Some pe \<Rightarrow> (Inl pe, fs) | None \<Rightarrow> (Inr (), fs))
          else
     (case print_lines console
             (display_statistics_lines @ display_sample_articles_lines articles) of
        Some pe \<Rightarrow> (Inl pe, fs)
      | None \<Rightarrow>
     (case toi_save_to_csv console fault articles ''times_of_india_articles.csv'' fs of
        (Inl e, fs') \<Rightarrow> (Inl e, fs')
      | (Inr ok, fs') \<Rightarrow>
          (case print_lines console [173, 174, 175] of
             Some pe \<Rightarrow> (Inl pe, fs')
           | None \<Rightarrow> (Inr (), fs'))))))"

section \<open>The Reddit scraper (reddit_scraper_ready.py)\<close>

subsection \<open>The writers\<close>

text \<open>
  \<open>csv.DictWriter._dict_to_list\<close> with the default \<open>extrasaction='raise'\<close> and
  \<open>restval=''\<close>: a key outside the field names raises \<open>ValueError\<close>, a missing field
  is written as the empty string.
\<close>

definition dict_to_list :: "string list \<Rightarrow> pydict \<Rightarrow> exn + pyval list" where
  "dict_to_list fieldnames rowdict =
     (if \<exists>k \<in> set (keys rowdict). k \<notin> set fieldnames then Inl ValueError
      else Inr (map (\<lambda>k. get_default rowdict k (PyStr '''')) fieldnames))"

text \<open>\<open>writer.writerows(data)\<close>: the rows are converted and written one after the other.\<close>

fun writerows :: "io_fault \<Rightarrow> string list \<Rightarrow> pydict list \<Rightarrow> chunk list \<Rightarrow> exn option \<times> chunk list" where
  "writerows fault fieldnames [] written = (None, written)"
| "writerows fault fieldnames (rowdict # rest) written =
     (case dict_to_list fieldnames rowdict of
        Inl e \<Rightarrow> (Some e, written)
      | Inr row \<Rightarrow>
          (case write_chunk fault (Row row) written of
             Inl e \<Rightarrow> (Some e, written)
           | Inr written' \<Rightarrow> writerows fault fieldnames rest written'))"

text \<open>
  Lines 275 to 278, the block of the \<open>with\<close> statement: the field names of \<open>data[0]\<close>
  (which raises on an empty list), the header, the rows.
\<close>

definition csv_with_block :: "io_fault \<Rightarrow> pydict list \<Rightarrow> exn option \<times> chunk list" where
  "csv_with_block fault data =
     (case data of
        [] \<Rightarrow> (Some IndexError, [])
      | first # _ \<Rightarrow>
          (let fieldnames = keys first in
           case write_chunk fault (Row (map PyStr fieldnames)) [] of
             Inl e \<Rightarrow> (Some e, [])
           | Inr written \<Rightarrow> writerows fault fieldnames data written))"

text \<open>Lines 274 to 281, the body of the \<open>try\<close>: the \<open>with\<close> statement and the message of line 280.\<close>

definition save_csv_body :: "console \<Rightarrow> io_fault \<Rightarrow> pydict list \<Rightarrow> string \<Rightarrow> filesystem \<Rightarrow> exn option \<times> filesystem" where
  "save_csv_body console fault data filename fs =
     then_report console 280 (with_open fault filename fs (csv_with_block fault data))"

text \<open>
  \<open>RedditScraper.save_to_csv\<close>. The empty list is reported on line 270, outside the
  \<open>try\<close>; the handler reports on line 284.
\<close>

definition save_to_csv :: "console \<Rightarrow> io_fault \<Rightarrow> pydict list \<Rightarrow> string \<Rightarrow> filesystem \<Rightarrow> (exn + bool) \<times> filesystem" where
  "save_to_csv console fault data filename fs =
     (if data = [] then
        (case py_print console 270 of Some pe \<Rightarrow> (Inl pe, fs) | None \<Rightarrow> (Inr False, fs))
      else except_return_False console 284 (save_csv_body console fault data filename fs))"

text \<open>Writing pieces one after the other, until a write raises.\<close>

fun write_pieces :: "io_fault \<Rightarrow> chunk list \<Rightarrow> chunk list \<Rightarrow> exn option \<times> chunk list" where
  "write_pieces fault [] written = (None, written)"
| "write_pieces fault (c # cs) written =
     (case write_chunk fault c written of
        Inl e \<Rightarrow> (Some e, written)
      | Inr written' \<Rightarrow> write_pieces fault cs written')"

text \<open>
  Line 295: \<open>json.dump\<close> encodes the list piece by piece and makes one write call for
  each piece. Into how many pieces a list falls is the library's affair: it is the
  parameter \<open>dump_writes\<close>. The values of the dictionaries are strings, numbers and
  booleans, which the encoder accepts.
\<close>

definition json_with_block :: "(pydict list \<Rightarrow> nat) \<Rightarrow> io_fault \<Rightarrow> pydict list \<Rightarrow> exn option \<times> chunk list" where
  "json_with_block dump_writes fault data =
     write_pieces fault (map (JsonPiece data) [0..<dump_writes data]) []"

text \<open>Lines 294 to 298, the body of the \<open>try\<close>: the \<open>with\<close> statement and the message of line 297.\<close>

definition save_json_body :: "console \<Rightarrow> (pydict list \<Rightarrow> nat) \<Rightarrow> io_fault \<Rightarrow> pydict list \<Rightarrow> string \<Rightarrow> filesystem \<Rightarrow> exn option \<times> filesystem" where
  "save_json_body console dump_writes fault data filename fs =
     then_report console 297
       (with_open fault filename fs (json_with_block dump_writes fault data))"

text \<open>
  \<open>RedditScraper.save_to_json\<close>. The empty list is reported on line 290, outside the
  \<open>try\<close>; the handler reports on line 301.
\<close>

definition save_to_json :: "console \<Rightarrow> (pydict list \<Rightarrow> nat) \<Rightarrow> io_fault \<Rightarrow> pydict list \<Rightarrow> string \<Rightarrow> filesystem \<Rightarrow> (exn + bool) \<times> filesystem" where
  "save_to_json console dump_writes fault data filename fs =
     (if data = [] then
        (case py_print console 290 of Some pe \<Rightarrow> (Inl pe, fs) | None \<Rightarrow> (Inr False, fs))
      else except_return_False console 301
             (save_json_body console dump_writes fault data filename fs))"

subsection \<open>What the API client delivers\<close>

text \<open>
  The attributes read of a submission and of a comment. An author is absent for a
  deleted account; the optional texts may be absent as well.
\<close>

record submission =
  id' :: string
  title :: string
  author :: "string option"
  subreddit_display_name :: string
  score :: int
  upvote_ratio :: real
  num_comments :: int
  created_utc :: real
  url :: string
  permalink :: string
  is_self :: bool
  selftext :: "string option"
  link_flair_text :: "string option"
  distinguished :: "string option"
  stickied :: bool
  spoiler :: bool
  over_18 :: bool
  gilded :: int
  domain :: string

record comment =
  c_id :: string
  c_author :: "string option"
  c_body :: string
  c_score :: int
  c_created_utc :: real
  c_is_submitter :: bool
  c_distinguished :: "string option"
  c_gilded :: int
  c_permalink :: string

text \<open>An entry of a comment forest: a comment, or a placeholder without a \<open>body\<close>.\<close>

datatype comment_item = Comment comment | MoreComments

text \<open>
  A listing is fetched lazily while the loop runs over it: it yields its items and then
  ends, or raises after the items it could yield.
\<close>

datatype 'a listing = Listing "'a list" "exn option"

text \<open>
  The calls made on the client, each with the arguments the code passes. The entry
  \<open>submission_comments\<close> stands for lines 121 to 124: the comment forest of a post after
  \<open>replace_more\<close>, or the exception raised on the way.
\<close>

record reddit_api =
  subreddit_hot :: "string \<Rightarrow> int \<Rightarrow> submission listing"
  subreddit_new :: "string \<Rightarrow> int \<Rightarrow> submission listing"
  subreddit_rising :: "string \<Rightarrow> int \<Rightarrow> submission listing"
  subreddit_top :: "string \<Rightarrow> int \<Rightarrow> string \<Rightarrow> submission listing"
  subreddit_controversial :: "string \<Rightarrow> int \<Rightarrow> string \<Rightarrow> submission listing"
  submission_comments :: "string \<Rightarrow> exn + comment_item list"
  subreddit_search :: "string \<Rightarrow> string \<Rightarrow> string \<Rightarrow> string \<Rightarrow> int \<Rightarrow> submission listing"
  user_hot :: "string \<Rightarrow> int \<Rightarrow> submission listing"
  user_new :: "string \<Rightarrow> int \<Rightarrow> submission listing"
  user_top :: "string \<Rightarrow> int \<Rightarrow> submission listing"
  user_controversial :: "string \<Rightarrow> int \<Rightarrow> submission listing"

text \<open>
  The two readings of time: \<open>strftime_utc t\<close> is the creation time \<open>t\<close> formatted as
  \<open>%Y-%m-%d %H:%M:%S\<close> in UTC, \<open>now n\<close> the formatted wall clock at its \<open>n\<close>-th reading.
\<close>

record env =
  strftime_utc :: "real \<Rightarrow> string"
  now :: "nat \<Rightarrow> string"

subsection \<open>The normalisers\<close>

text \<open>\<open>x or ''\<close> for an optional string.\<close>

definition or_empty :: "string option \<Rightarrow> string" where
  "or_empty x = (case x of None \<Rightarrow> '''' | Some s \<Rightarrow> if s = '''' then '''' else s)"

text \<open>\<open>str(x) if x else '[deleted]'\<close> for an optional author.\<close>

definition author_or_deleted :: "string option \<Rightarrow> string" where
  "author_or_deleted a = (case a of None \<Rightarrow> ''[deleted]'' | Some name \<Rightarrow> name)"

text \<open>\<open>x[:n] if x else ''\<close> for an optional text.\<close>

definition truncated :: "nat \<Rightarrow> string option \<Rightarrow> string" where
  "truncated n x = (case x of None \<Rightarrow> '''' | Some s \<Rightarrow> if s = '''' then '''' else take n s)"

text \<open>Lines 73 to 95.\<close>

definition post_data :: "env \<Rightarrow> submission \<Rightarrow> string \<Rightarrow> pydict" where
  "post_data e s scraped =
     [(''id'', PyStr (id' s)),
      (''title'', PyStr (title s)),
      (''author'', PyStr (author_or_deleted (author s))),
      (''subreddit'', PyStr (subreddit_display_name s)),
      (''score'', PyInt (score s)),
      (''upvote_ratio'', PyFloat (upvote_ratio s)),
      (''num_comments'', PyInt (num_comments s)),
      (''created_utc'', PyFloat (created_utc s)),
      (''created_datetime'', PyStr (strftime_utc e (created_utc s))),
      (''url'', PyStr (url s)),
      (''permalink'', PyStr (''https://reddit.com'' @ permalink s)),
      (''is_self'', PyBool (is_self s)),
      (''selftext'', PyStr (truncated 500 (selftext s))),
      (''flair'', PyStr (or_empty (link_flair_text s))),
      (''distinguished'', PyStr (or_empty (distinguished s))),
      (''stickied'', PyBool (stickied s)),
      (''spoiler'', PyBool (spoiler s)),
      (''nsfw'', PyBool (over_18 s)),
      (''gilded'', PyInt (gilded s)),
      (''domain'', PyStr (domain s)),
      (''scraped_at'', PyStr scraped)]"

text \<open>Lines 189 to 202.\<close>

definition search_post_data :: "env \<Rightarrow> string \<Rightarrow> submission \<Rightarrow> string \<Rightarrow> pydict" where
  "search_post_data e query s scraped =
     [(''id'', PyStr (id' s)),
      (''title'', PyStr (title s)),
      (''author'', PyStr (author_or_deleted (author s))),
      (''subreddit'', PyStr (subreddit_display_name s)),
      (''score'', PyInt (score s)),
      (''num_comments'', PyInt (num_comments s)),
      (''created_datetime'', PyStr (strftime_utc e (created_utc s))),
      (''url'', PyStr (url s)),
      (''permalink'', PyStr (''https://reddit.com'' @ permalink s)),
      (''selftext'', PyStr (truncated 300 (selftext s))),
      (''search_query'', PyStr query),
      (''scraped_at'', PyStr scraped)]"

text \<open>Lines 244 to 256.\<close>

definition user_post_data :: "env \<Rightarrow> string \<Rightarrow> submission \<Rightarrow> string \<Rightarrow> pydict" where
  "user_post_data e username s scraped =
     [(''id'', PyStr (id' s)),
      (''title'', PyStr (title s)),
      (''author'', PyStr username),
      (''subreddit'', PyStr (subreddit_display_name s)),
      (''score'', PyInt (score s)),
      (''num_comments'', PyInt (num_comments s)),
      (''created_datetime'', PyStr (strftime_utc e (created_utc s))),
      (''url'', PyStr (url s)),
      (''permalink'', PyStr (''https://reddit.com'' @ permalink s)),
      (''selftext'', PyStr (truncated 300 (selftext s))),
      (''scraped_at'', PyStr scraped)]"


subsection \<open>The fetch operations\<close>

text \<open>
  The loop over the submissions: one dictionary is appended for each, the clock being
  read once for each.
\<close>

fun build_posts :: "(submission \<Rightarrow> string \<Rightarrow> pydict) \<Rightarrow> (nat \<Rightarrow> string) \<Rightarrow> submission list \<Rightarrow> pydict list \<Rightarrow> pydict list" where
  "build_posts mk clock [] posts = posts"
| "build_posts mk clock (s # rest) posts =
     build_posts mk clock rest (posts @ [mk s (clock (length posts))])"


text \<open>Running the loop over a listing: an exception of the listing leaves the loop.\<close>

definition for_listing :: "submission listing \<Rightarrow> (submission list \<Rightarrow> pydict list) \<Rightarrow> exn + pydict list" where
  "for_listing submissions body =
     (case submissions of
        Listing items None \<Rightarrow> Inr (body items)
      | Listing items (Some e) \<Rightarrow> Inl e)"


text \<open>
  The handler \<open>except Exception as e: print(...); return []\<close> that closes each fetch
  operation, the \<open>print\<close> being on the line given. When the handler's message cannot be
  printed, the \<open>print\<close> raises out of the handler.
\<close>

definition except_return_empty :: "console \<Rightarrow> nat \<Rightarrow> exn + pydict list \<Rightarrow> exn + pydict list" where
  "except_return_empty console line body =
     (case body of
        Inr r \<Rightarrow> Inr r
      | Inl e \<Rightarrow>
          if is_Exception e then
            (case py_print console line of Some pe \<Rightarrow> Inl pe | None \<Rightarrow> Inr [])
          else Inl e)"

text \<open>Lines 55 to 66: the listing asked for.\<close>

definition subreddit_submissions :: "reddit_api \<Rightarrow> string \<Rightarrow> string \<Rightarrow> int \<Rightarrow> string \<Rightarrow> submission listing" where
  "subreddit_submissions api subreddit_name sort_type limit time_filter =
     (if sort_type = ''hot'' then subreddit_hot api subreddit_name limit
      else if sort_type = ''new'' then subreddit_new api subreddit_name limit
      else if sort_type = ''rising'' then subreddit_rising api subreddit_name limit
      else if sort_type = ''top'' then subreddit_top api subreddit_name limit time_filter
      else if sort_type = ''controversial''
        then subreddit_controversial api subreddit_name limit time_filter
      else subreddit_hot api subreddit_name limit)"

text \<open>
  \<open>get_subreddit_posts\<close>: the message of line 51, the loop over the listing, the
  message of line 101; the handler reports on line 105.
\<close>

definition get_subreddit_posts :: "console \<Rightarrow> env \<Rightarrow> reddit_api \<Rightarrow> string \<Rightarrow> string \<Rightarrow> int \<Rightarrow> string \<Rightarrow> exn + pydict list" where
  "get_subreddit_posts console e api subreddit_name sort_type limit time_filter =
     except_return_empty console 105
       (after_print console 51
          (then_print console 101
             (for_listing (subreddit_submissions api subreddit_name sort_type limit time_filter)
                (\<lambda>items. build_posts (post_data e) (now e) items []))))"


text \<open>
  Lines 174 to 183: an absent or empty subreddit searches \<open>all\<close>. The search is only
  started when the loop runs over the listing, after the message of line 178 or 183.
\<close>

definition search_results :: "reddit_api \<Rightarrow> string \<Rightarrow> string option \<Rightarrow> string \<Rightarrow> string \<Rightarrow> int \<Rightarrow> submission listing" where
  "search_results api query subreddit sort' time_filter limit =
     (case subreddit of
        None \<Rightarrow> subreddit_search api ''all'' query sort' time_filter limit
      | Some name \<Rightarrow>
          if name \<noteq> '''' then subreddit_search api name query sort' time_filter limit
          else subreddit_search api ''all'' query sort' time_filter limit)"

definition search_message_line :: "string option \<Rightarrow> nat" where
  "search_message_line subreddit =
     (case subreddit of None \<Rightarrow> 183 | Some name \<Rightarrow> if name \<noteq> '''' then 178 else 183)"

text \<open>
  \<open>search_reddit\<close>: the messages of line 172 and of line 178 or 183, the loop over the
  listing, the message of line 206; the handler reports on line 210.
\<close>

definition search_reddit :: "console \<Rightarrow> env \<Rightarrow> reddit_api \<Rightarrow> string \<Rightarrow> string option \<Rightarrow> string \<Rightarrow> string \<Rightarrow> int \<Rightarrow> exn + pydict list" where
  "search_reddit console e api query subreddit sort' time_filter limit =
     except_return_empty console 210
       (after_print console 172
          (after_print console (search_message_line subreddit)
             (then_print console 206
                (for_listing (search_results api query subreddit sort' time_filter limit)
                   (\<lambda>items. build_posts (search_post_data e query) (now e) items [])))))"

text \<open>Lines 229 to 238.\<close>

definition user_submissions :: "reddit_api \<Rightarrow> string \<Rightarrow> string \<Rightarrow> int \<Rightarrow> submission listing" where
  "user_submissions api username sort' limit =
     (if sort' = ''hot'' then user_hot api username limit
      else if sort' = ''new'' then user_new api username limit
      else if sort' = ''top'' then user_top api username limit
      else if sort' = ''controversial'' then user_controversial api username limit
      else user_new api username limit)"

text \<open>
  \<open>get_user_posts\<close>: the message of line 226, the loop over the listing, the message of
  line 260; the handler reports on line 264.
\<close>

definition get_user_posts :: "console \<Rightarrow> env \<Rightarrow> reddit_api \<Rightarrow> string \<Rightarrow> string \<Rightarrow> int \<Rightarrow> exn + pydict list" where
  "get_user_posts console e api username sort' limit =
     except_return_empty console 264
       (after_print console 226
          (then_print console 260
             (for_listing (user_submissions api username sort' limit)
                (\<lambda>items. build_posts (user_post_data e username) (now e) items []))))"

section \<open>Auxiliary notions and sample data\<close>

text \<open>
  A dictionary of the shape the anchor loop appends: built from some anchor's \<open>href\<close>,
  with the category computed from the absolute URL.
\<close>

definition toi_article :: "pydict \<Rightarrow> bool" where
  "toi_article a \<longleftrightarrow>
     (\<exists>t h i n. a = article_dict t (full_url_of h) i (category_of (full_url_of h)) n)"





text \<open>A division of a list into pieces by \<open>json.dump\<close>, used to run the definitions.\<close>

definition sample_dump_writes :: "pydict list \<Rightarrow> nat" where
  "sample_dump_writes data = 2 + 3 * length data"

text \<open>A page, a clock and three articles used to run the definitions.\<close>

definition sample_clock :: "nat \<Rightarrow> string" where
  "sample_clock n = ''2024-01-01 00:00:00''"

definition art1 :: pydict where
  "art1 = article_dict ''Monsoon reaches the coast'' ''https://timesofindia.indiatimes.com/india/monsoon/articleshow/1.cms''
            '''' ''India News'' ''2024-01-01 00:00:00''"

definition art2 :: pydict where
  "art2 = article_dict ''Markets close at a high'' ''https://timesofindia.indiatimes.com/business/markets/articleshow/2.cms''
            '''' ''Business'' ''2024-01-01 00:00:00''"

definition art3 :: pydict where
  "art3 = article_dict ''Monsoon: what to expect'' ''https://timesofindia.indiatimes.com/india/monsoon/articleshow/1.cms''
            '''' ''India News'' ''2024-01-01 00:00:00''"

definition link_rel :: anchor where
  "link_rel = \<lparr>href = ''/india/monsoon/articleshow/1.cms'',
               get_text = '' Monsoon reaches the coast '', find_img = None\<rparr>"

definition link_abs :: anchor where
  "link_abs = \<lparr>href = ''https://timesofindia.indiatimes.com/india/monsoon/articleshow/1.cms'',
               get_text = ''Monsoon: what to expect'', find_img = None\<rparr>"

definition link_sports_india :: anchor where
  "link_sports_india = \<lparr>href = ''/sports/cricket/india/articleshow/3.cms'',
               get_text = ''Series decided in the last over'', find_img = None\<rparr>"

definition link_sports :: anchor where
  "link_sports = \<lparr>href = ''/sports/cricket/articleshow/4.cms'',
               get_text = ''Series decided in the last over'', find_img = None\<rparr>"

definition art_sports :: pydict where
  "art_sports = article_dict ''Series decided in the last over''
     ''https://timesofindia.indiatimes.com/sports/cricket/articleshow/4.cms''
     '''' ''Sports'' ''2024-01-01 00:00:00''"

definition art_sports_india :: pydict where
  "art_sports_india = article_dict ''Series decided in the last over''
     ''https://timesofindia.indiatimes.com/sports/cricket/india/articleshow/3.cms''
     '''' ''India News'' ''2024-01-01 00:00:00''"

text \<open>The tests of lines 40 and 44 under which an anchor becomes an article.\<close>

definition accepted :: "anchor \<Rightarrow> bool" where
  "accepted link \<longleftrightarrow>
     str_in ''articleshow'' (href link)
     \<and> strip (get_text link) \<noteq> '''' \<and> length (strip (get_text link)) > 15"

text \<open>A clock, a submission, a comment and two clients used to run the Reddit definitions.\<close>

definition sample_env :: env where
  "sample_env = \<lparr>strftime_utc = (\<lambda>t. ''2023-11-14 22:13:20''),
                  now = (\<lambda>n. ''2024-06-01 12:00:00'')\<rparr>"

definition sample_submission :: "string \<Rightarrow> string option \<Rightarrow> submission" where
  "sample_submission name txt =
     \<lparr>id' = name, title = ''A question about decorators'', author = None,
      subreddit_display_name = ''python'', score = 10, upvote_ratio = 1, num_comments = 3,
      created_utc = 1700000000, url = ''https://example.org/post'',
      permalink = ''/r/python/comments/abc123/'', is_self = True, selftext = txt,
      link_flair_text = None, distinguished = None, stickied = False, spoiler = False,
      over_18 = False, gilded = 0, domain = ''self.python''\<rparr>"

definition sample_comment :: comment where
  "sample_comment =
     \<lparr>c_id = ''c1'', c_author = Some ''someone'', c_body = ''Use functools.wraps'',
      c_score = 4, c_created_utc = 1700000100, c_is_submitter = False,
      c_distinguished = None, c_gilded = 0, c_permalink = ''/r/python/comments/abc123/c1/''\<rparr>"

text \<open>A client whose listings differ from one another, so that the one asked for shows.\<close>

definition sample_api :: reddit_api where
  "sample_api =
     \<lparr>subreddit_hot = (\<lambda>name limit. Listing [sample_submission ''hot'' None] None),
      subreddit_new = (\<lambda>name limit. Listing [sample_submission ''new'' None] None),
      subreddit_rising = (\<lambda>name limit. Listing [sample_submission ''rising'' None] None),
      subreddit_top = (\<lambda>name limit tf. Listing [sample_submission ''top'' None] None),
      subreddit_controversial =
        (\<lambda>name limit tf. Listing [sample_submission ''controversial'' None] None),
      submission_comments = (\<lambda>post_id. Inr [Comment sample_comment, MoreComments]),
      subreddit_search =
        (\<lambda>name query sort' tf limit. Listing [sample_submission ''found'' None] None),
      user_hot = (\<lambda>name limit. Listing [sample_submission ''user hot'' None] None),
      user_new = (\<lambda>name limit. Listing [sample_submission ''user new'' None] None),
      user_top = (\<lambda>name limit. Listing [sample_submission ''user top'' None] None),
      user_controversial =
        (\<lambda>name limit. Listing [sample_submission ''user controversial'' None] None)\<rparr>"



section \<open>Properties of the string operations\<close>

lemma startswith_iff: "startswith s p \<longleftrightarrow> (\<exists>t. s = p @ t)"
  by (induction s p rule: startswith.induct) auto

lemma str_in_iff: "str_in sub s \<longleftrightarrow> (\<exists>pre post. s = pre @ sub @ post)"
proof (induction s)
  case Nil
  show ?case by auto
next
  case (Cons c s)
  show ?case
  proof
    assume "str_in sub (c # s)"
    then consider "startswith (c # s) sub" | "str_in sub s" by auto
    then show "\<exists>pre post. c # s = pre @ sub @ post"
    proof cases
      case 1
      then obtain t where "c # s = sub @ t" by (auto simp: startswith_iff)
      then have "c # s = [] @ sub @ t" by simp
      then show ?thesis by blast
    next
      case 2
      then obtain pre post where "s = pre @ sub @ post" using Cons.IH by blast
      then have "c # s = (c # pre) @ sub @ post" by simp
      then show ?thesis by blast
    qed
  next
    assume "\<exists>pre post. c # s = pre @ sub @ post"
    then obtain pre post where eq: "c # s = pre @ sub @ post" by blast
    show "str_in sub (c # s)"
    proof (cases pre)
      case Nil
      with eq have "startswith (c # s) sub" by (auto simp: startswith_iff)
      then show ?thesis by simp
    next
      case (Cons d pre')
      with eq have "s = pre' @ sub @ post" by simp
      then have "str_in sub s" using Cons.IH by blast
      then show ?thesis by simp
    qed
  qed
qed

section \<open>Properties of the duplicate filter\<close>

lemma getitem_url: "has_url a \<Longrightarrow> getitem a ''url'' = Inr (url_of a)"
  by (auto simp: has_url_def keys_def getitem_def url_of_def get_default_def
      map_of_eq_None_iff split: option.splits)

lemma dedupe_loop_keep_first:
  "\<forall>a \<in> set B. has_url a \<Longrightarrow>
   dedupe_loop B seen unique = Inr (unique @ keep_first seen B)"
  by (induction B arbitrary: seen unique) (auto simp: getitem_url)

lemma dedupe_keep_first: "\<forall>a \<in> set B. has_url a \<Longrightarrow> dedupe B = Inr (keep_first {} B)"
  by (simp add: dedupe_def dedupe_loop_keep_first)

lemma dedupe_loop_Inr_has_url:
  "dedupe_loop B seen unique = Inr D \<Longrightarrow> \<forall>a \<in> set B. has_url a"
proof (induction B arbitrary: seen unique)
  case Nil
  show ?case by simp
next
  case (Cons a B)
  show ?case
  proof (cases "getitem a ''url''")
    case (Inl e)
    with Cons.prems show ?thesis by simp
  next
    case (Inr u)
    then have "has_url a"
      by (auto simp: getitem_def has_url_def keys_def split: option.splits
          dest!: map_of_SomeD intro: image_eqI [where x = "(''url'', u)" for u])
    moreover have "\<forall>b \<in> set B. has_url b"
      using Cons.prems Inr Cons.IH by (auto split: if_splits)
    ultimately show ?thesis by simp
  qed
qed

lemma map_filter_upt_Cons:
  "map (\<lambda>i. (a # B) ! i) (filter Q [0..<Suc (length B)]) =
     (if Q 0 then [a] else []) @ map (\<lambda>i. B ! i) (filter (\<lambda>i. Q (Suc i)) [0..<length B])"
proof -
  have "[0..<Suc (length B)] = 0 # map Suc [0..<length B]"
    by (simp add: upt_conv_Cons map_Suc_upt del: upt_Suc)
  then show ?thesis
    by (simp add: filter_map comp_def del: upt_Suc)
qed

lemma all_less_Suc: "(\<forall>j<Suc i. P j) \<longleftrightarrow> P 0 \<and> (\<forall>j<i. P (Suc j))"
  by (metis less_Suc_eq_0_disj)

lemma keep_first_index:
  "keep_first seen B =
     map (\<lambda>i. B ! i)
       (filter (\<lambda>i. url_of (B ! i) \<notin> seen \<and> (\<forall>j<i. url_of (B ! j) \<noteq> url_of (B ! i)))
          [0..<length B])"
proof (induction B arbitrary: seen)
  case Nil
  show ?case by simp
next
  case (Cons a B)
  let ?Q = "\<lambda>s i. url_of (B ! i) \<notin> s \<and> (\<forall>j<i. url_of (B ! j) \<noteq> url_of (B ! i))"
  show ?case
  proof (cases "url_of a \<in> seen")
    case True
    then have "\<And>i. (url_of (B ! i) \<notin> seen \<and> url_of a \<noteq> url_of (B ! i)
          \<and> (\<forall>j<i. url_of (B ! j) \<noteq> url_of (B ! i))) \<longleftrightarrow> ?Q seen i"
      by auto
    with True show ?thesis
      by (simp add: map_filter_upt_Cons Cons.IH all_less_Suc del: upt_Suc)
  next
    case False
    have "\<And>i. (url_of (B ! i) \<notin> seen \<and> url_of a \<noteq> url_of (B ! i)
          \<and> (\<forall>j<i. url_of (B ! j) \<noteq> url_of (B ! i))) \<longleftrightarrow> ?Q (insert (url_of a) seen) i"
      by auto
    with False show ?thesis
      by (simp add: map_filter_upt_Cons Cons.IH all_less_Suc del: upt_Suc)
  qed
qed

lemma keep_first_subseq: "subseq (keep_first seen B) B"
  by (induction B arbitrary: seen) auto

lemma keep_first_subset: "set (keep_first seen B) \<subseteq> set B"
  by (induction B arbitrary: seen) auto

lemma keep_first_keys: "url_of ` set (keep_first seen B) = url_of ` set B - seen"
  by (induction B arbitrary: seen) auto

lemma keep_first_distinct: "distinct (map url_of (keep_first seen B))"
  by (induction B arbitrary: seen) (auto simp: keep_first_keys)

lemma keep_first_id:
  "distinct (map url_of B) \<Longrightarrow> url_of ` set B \<inter> seen = {} \<Longrightarrow> keep_first seen B = B"
  by (induction B arbitrary: seen) auto

lemma keep_first_idem: "keep_first {} (keep_first {} B) = keep_first {} B"
  by (rule keep_first_id) (simp_all add: keep_first_distinct)

lemma sample_batch_has_url: "\<forall>a \<in> set [art1, art2, art3, art1]. has_url a"
  by (simp add: has_url_def keys_def art1_def art2_def art3_def article_dict_def)

lemma sample_batch_dedupe: "dedupe [art1, art2, art3, art1] = Inr [art1, art2]"
  by (simp add: dedupe_def art1_def art2_def art3_def article_dict_def getitem_def)

lemma sample_batch_dedupe_again: "dedupe [art1, art2] = Inr [art1, art2]"
  by (simp add: dedupe_def art1_def art2_def article_dict_def getitem_def)

text \<open>
  C4. On a batch of records that carry a URL, the duplicate filter returns the records
  at exactly those positions where the URL occurs for the first time, in the order of
  the batch: the result is a subsequence of the batch, its URLs are pairwise distinct,
  and every URL of the batch is still there.
\<close>

theorem dedupe_first_occurrences:
  assumes "\<forall>a \<in> set B. has_url a"
  shows "\<exists>D. dedupe B = Inr D
           \<and> D = map (\<lambda>i. B ! i)
                 (filter (\<lambda>i. \<forall>j<i. url_of (B ! j) \<noteq> url_of (B ! i)) [0..<length B])
           \<and> subseq D B
           \<and> distinct (map url_of D)
           \<and> url_of ` set D = url_of ` set B"
proof -
  have "dedupe B = Inr (keep_first {} B)"
    using assms by (rule dedupe_keep_first)
  moreover have "keep_first {} B = map (\<lambda>i. B ! i)
                 (filter (\<lambda>i. \<forall>j<i. url_of (B ! j) \<noteq> url_of (B ! i)) [0..<length B])"
    by (simp add: keep_first_index)
  moreover have "subseq (keep_first {} B) B"
    by (rule keep_first_subseq)
  moreover have "distinct (map url_of (keep_first {} B))"
    by (rule keep_first_distinct)
  moreover have "url_of ` set (keep_first {} B) = url_of ` set B"
    by (simp add: keep_first_keys)
  ultimately show ?thesis by simp
qed

theorem dedupe_first_occurrences_witness:
  "has_url art1 \<and> has_url art2 \<and> has_url art3
   \<and> dedupe [art1, art2, art3, art1] = Inr [art1, art2]
   \<and> map (\<lambda>i. [art1, art2, art3, art1] ! i)
       (filter (\<lambda>i. \<forall>j<i. url_of ([art1, art2, art3, art1] ! j) \<noteq> url_of ([art1, art2, art3, art1] ! i))
          [0..<length [art1, art2, art3, art1]]) = [art1, art2]
   \<and> subseq [art1, art2] [art1, art2, art3, art1]"
  using dedupe_first_occurrences [OF sample_batch_has_url] sample_batch_has_url
    sample_batch_dedupe
  by auto

text \<open>
  C5. Filtering the result of the duplicate filter once more gives the same result; and
  the filter does return a result on every batch of records that carry a URL.
\<close>

theorem dedupe_idempotent:
  "(dedupe B = Inr D \<longrightarrow> dedupe D = Inr D)
   \<and> ((\<forall>a \<in> set B. has_url a) \<longrightarrow> (\<exists>D. dedupe B = Inr D))"
proof (intro conjI impI)
  assume r: "dedupe B = Inr D"
  then have all: "\<forall>a \<in> set B. has_url a"
    unfolding dedupe_def by (rule dedupe_loop_Inr_has_url)
  then have D: "D = keep_first {} B"
    using r by (simp add: dedupe_keep_first)
  have "set D \<subseteq> set B"
    unfolding D by (rule keep_first_subset)
  with all have "\<forall>a \<in> set D. has_url a" by blast
  then have "dedupe D = Inr (keep_first {} D)" by (rule dedupe_keep_first)
  then show "dedupe D = Inr D" by (simp add: D keep_first_idem)
next
  assume "\<forall>a \<in> set B. has_url a"
  then show "\<exists>D. dedupe B = Inr D" by (simp add: dedupe_keep_first)
qed

theorem dedupe_idempotent_witness:
  "dedupe [art1, art2, art3, art1] = Inr [art1, art2]
   \<and> dedupe [art1, art2] = Inr [art1, art2]
   \<and> has_url art1 \<and> has_url art2 \<and> has_url art3"
  using dedupe_idempotent [of "[art1, art2, art3, art1]" "[art1, art2]"]
    sample_batch_has_url sample_batch_dedupe
  by simp

section \<open>Properties of the news scraper\<close>

lemma toi_article_fields:
  "toi_article a \<Longrightarrow>
   \<exists>h. getitem a ''url'' = Inr (PyStr (full_url_of h))
      \<and> getitem a ''category'' = Inr (PyStr (category_of (full_url_of h)))
      \<and> url_of a = PyStr (full_url_of h)"
  by (auto simp: toi_article_def article_dict_def getitem_def url_of_def get_default_def)

lemma toi_article_has_url: "toi_article a \<Longrightarrow> has_url a"
  by (auto simp: toi_article_def article_dict_def has_url_def keys_def)

lemma collect_articles_Cons:
  "collect_articles clock (link # links) acc =
     collect_articles clock links
       (if accepted link
        then acc @ [article_dict (strip (get_text link)) (full_url_of (href link))
                      (img_url_of (find_img link)) (category_of (full_url_of (href link)))
                      (clock (length acc))]
        else acc)"
  by (simp add: accepted_def Let_def)

lemma collect_articles_inv:
  "\<forall>a \<in> set acc. toi_article a \<Longrightarrow> \<forall>a \<in> set (collect_articles clock links acc). toi_article a"
proof (induction links arbitrary: acc)
  case Nil
  then show ?case by simp
next
  case (Cons link links)
  let ?new = "article_dict (strip (get_text link)) (full_url_of (href link))
                      (img_url_of (find_img link)) (category_of (full_url_of (href link)))
                      (clock (length acc))"
  have new: "toi_article ?new"
    unfolding toi_article_def by blast
  have "\<forall>a \<in> set (if accepted link then acc @ [?new] else acc). toi_article a"
    using Cons.prems new by simp
  then have "\<forall>a \<in> set (collect_articles clock links
                 (if accepted link then acc @ [?new] else acc)). toi_article a"
    by (rule Cons.IH)
  then show ?case
    by (simp only: collect_articles_Cons)
qed

lemma url_of_article_dict: "url_of (article_dict t u i c n) = PyStr u"
  by (simp add: url_of_def get_default_def article_dict_def)

lemma getitem_url_article_dict: "getitem (article_dict t u i c n) ''url'' = Inr (PyStr u)"
  by (simp add: getitem_def article_dict_def)

text \<open>The URLs of the collected articles are those of the accepted anchors, in page order.\<close>

lemma collect_articles_urls:
  "map url_of (collect_articles clock links acc)
     = map url_of acc @ map (\<lambda>l. PyStr (full_url_of (href l))) (filter accepted links)"
proof (induction links arbitrary: acc)
  case Nil
  show ?case by simp
next
  case (Cons link links)
  show ?case
    by (simp only: collect_articles_Cons Cons.IH) (simp add: url_of_article_dict)
qed

text \<open>Every collected article was built from an accepted anchor of the page.\<close>

lemma collect_articles_from:
  "a \<in> set (collect_articles clock links acc) \<Longrightarrow>
   a \<in> set acc \<or>
   (\<exists>l \<in> set links. accepted l \<and>
      (\<exists>n. a = article_dict (strip (get_text l)) (full_url_of (href l))
                 (img_url_of (find_img l)) (category_of (full_url_of (href l))) n))"
proof (induction links arbitrary: acc)
  case Nil
  then show ?case by simp
next
  case (Cons link links)
  let ?new = "article_dict (strip (get_text link)) (full_url_of (href link))
                      (img_url_of (find_img link)) (category_of (full_url_of (href link)))
                      (clock (length acc))"
  from Cons.prems have
    "a \<in> set (collect_articles clock links (if accepted link then acc @ [?new] else acc))"
    by (simp only: collect_articles_Cons)
  then have "a \<in> set (if accepted link then acc @ [?new] else acc) \<or>
   (\<exists>l \<in> set links. accepted l \<and>
      (\<exists>n. a = article_dict (strip (get_text l)) (full_url_of (href l))
                 (img_url_of (find_img l)) (category_of (full_url_of (href l))) n))"
    by (rule Cons.IH)
  then show ?case
    by (auto split: if_splits)
qed

lemma dedupe_collected:
  "dedupe (collect_articles clock links []) = Inr (keep_first {} (collect_articles clock links []))"
proof -
  have "\<forall>a \<in> set (collect_articles clock links []). toi_article a"
    by (rule collect_articles_inv) simp
  then have "\<forall>a \<in> set (collect_articles clock links []). has_url a"
    by (blast intro: toi_article_has_url)
  then show ?thesis
    by (rule dedupe_keep_first)
qed

lemma scrape_Inr:
  "scrape_times_of_india prints_all clock (Inr links)
     = Inr (keep_first {} (collect_articles clock links []))"
  by (simp add: scrape_times_of_india_def scrape_handlers_def after_print_def py_print_def
      prints_all_def dedupe_collected)

lemma scrape_result:
  assumes "scrape_times_of_india console clock page = Inr articles"
  shows "articles = [] \<or>
         (\<exists>links. page = Inr links \<and> articles = keep_first {} (collect_articles clock links []))"
  using assms
  by (auto simp: scrape_times_of_india_def scrape_handlers_def after_print_def py_print_def
      dedupe_collected split: sum.splits if_splits)

lemma scrape_articles:
  assumes "scrape_times_of_india console clock page = Inr articles"
  shows "\<forall>a \<in> set articles. toi_article a"
proof -
  from assms consider "articles = []"
    | links where "articles = keep_first {} (collect_articles clock links [])"
    using scrape_result by blast
  then show ?thesis
  proof cases
    case 1
    then show ?thesis by simp
  next
    case 2
    moreover have "\<forall>a \<in> set (collect_articles clock links []). toi_article a"
      by (rule collect_articles_inv) simp
    ultimately show ?thesis
      using keep_first_subset by blast
  qed
qed

lemma category_sports:
  "str_in ''/sports/'' u \<Longrightarrow> \<not> str_in ''/india/'' u \<Longrightarrow> \<not> str_in ''/world/'' u
   \<Longrightarrow> category_of u = ''Sports''"
  by (simp add: category_of_def)

lemma category_other:
  "\<not> str_in ''/india/'' u \<Longrightarrow> \<not> str_in ''/world/'' u \<Longrightarrow> \<not> str_in ''/sports/'' u
   \<Longrightarrow> \<not> str_in ''/business/'' u \<Longrightarrow> \<not> str_in ''/entertainment/'' u
   \<Longrightarrow> category_of u = ''Other''"
  by (simp add: category_of_def)

text \<open>
  C3, as amended. The category of every article the scraper returns is the first match
  of the chain of lines 58 to 67 on the article's URL: a URL that contains \<open>/sports/\<close>
  and neither \<open>/india/\<close> nor \<open>/world/\<close> gives \<open>Sports\<close>, and a URL that contains none
  of the five segments gives \<open>Other\<close>.
\<close>

theorem category_by_first_match:
  assumes "scrape_times_of_india console clock page = Inr articles"
    and "article \<in> set articles"
  shows "\<exists>u c. getitem article ''url'' = Inr (PyStr u)
           \<and> getitem article ''category'' = Inr (PyStr c)
           \<and> (str_in ''/sports/'' u \<and> \<not> str_in ''/india/'' u \<and> \<not> str_in ''/world/'' u
                \<longrightarrow> c = ''Sports'')
           \<and> (\<not> str_in ''/india/'' u \<and> \<not> str_in ''/world/'' u \<and> \<not> str_in ''/sports/'' u
                \<and> \<not> str_in ''/business/'' u \<and> \<not> str_in ''/entertainment/'' u
                \<longrightarrow> c = ''Other'')"
proof -
  have "toi_article article"
    using assms scrape_articles by blast
  then obtain h where
    u: "getitem article ''url'' = Inr (PyStr (full_url_of h))" and
    c: "getitem article ''category'' = Inr (PyStr (category_of (full_url_of h)))"
    using toi_article_fields by blast
  show ?thesis
    using u c category_sports category_other by blast
qed

lemma run_sports:
  "scrape_times_of_india prints_all sample_clock (Inr [link_sports]) = Inr [art_sports]"
  by code_simp

theorem category_by_first_match_witness:
  "scrape_times_of_india prints_all sample_clock (Inr [link_sports]) = Inr [art_sports]
   \<and> art_sports \<in> set [art_sports]
   \<and> getitem art_sports ''url''
       = Inr (PyStr ''https://timesofindia.indiatimes.com/sports/cricket/articleshow/4.cms'')
   \<and> str_in ''/sports/'' ''https://timesofindia.indiatimes.com/sports/cricket/articleshow/4.cms''
   \<and> \<not> str_in ''/india/'' ''https://timesofindia.indiatimes.com/sports/cricket/articleshow/4.cms''
   \<and> \<not> str_in ''/world/'' ''https://timesofindia.indiatimes.com/sports/cricket/articleshow/4.cms''
   \<and> getitem art_sports ''category'' = Inr (PyStr ''Sports'')"
proof -
  have u: "getitem art_sports ''url''
       = Inr (PyStr ''https://timesofindia.indiatimes.com/sports/cricket/articleshow/4.cms'')"
    by code_simp
  have s: "str_in ''/sports/'' ''https://timesofindia.indiatimes.com/sports/cricket/articleshow/4.cms''"
    by code_simp
  have i: "\<not> str_in ''/india/'' ''https://timesofindia.indiatimes.com/sports/cricket/articleshow/4.cms''"
    by code_simp
  have w: "\<not> str_in ''/world/'' ''https://timesofindia.indiatimes.com/sports/cricket/articleshow/4.cms''"
    by code_simp
  show ?thesis
    using category_by_first_match [OF run_sports, of art_sports] u s i w run_sports by auto
qed

text \<open>
  C3 as it is stated fails: a URL that contains \<open>/sports/\<close> and also \<open>/india/\<close> is
  classified by the earlier branch.
\<close>

theorem category_sports_counterexample:
  "scrape_times_of_india prints_all sample_clock (Inr [link_sports_india])
     = Inr [art_sports_india]
   \<and> getitem art_sports_india ''url''
       = Inr (PyStr ''https://timesofindia.indiatimes.com/sports/cricket/india/articleshow/3.cms'')
   \<and> str_in ''/sports/''
         ''https://timesofindia.indiatimes.com/sports/cricket/india/articleshow/3.cms''
   \<and> getitem art_sports_india ''category'' = Inr (PyStr ''India News'')
   \<and> getitem art_sports_india ''category'' \<noteq> Inr (PyStr ''Sports'')"
  by code_simp

lemma full_url_startswith: "startswith (full_url_of h) ''http''"
  by (simp add: full_url_of_def base_url_def)

lemma full_url_absolute: "\<not> startswith h ''http'' \<Longrightarrow> full_url_of (base_url @ h) = full_url_of h"
  by (simp add: full_url_of_def base_url_def)

lemma distinct_map_filter_le1:
  "distinct (map f xs) \<Longrightarrow> length (filter (\<lambda>a. f a = k) xs) \<le> 1"
proof (induction xs)
  case Nil
  show ?case by simp
next
  case (Cons x xs)
  show ?case
  proof (cases "f x = k")
    case True
    with Cons.prems have "\<forall>a \<in> set xs. f a \<noteq> k" by (auto simp: image_iff)
    then have "filter (\<lambda>a. f a = k) xs = []" by (simp add: filter_empty_conv)
    with True show ?thesis by simp
  next
    case False
    with Cons show ?thesis by simp
  qed
qed

lemma distinct_map_filter_eq1:
  "distinct (map f xs) \<Longrightarrow> k \<in> f ` set xs \<Longrightarrow> length (filter (\<lambda>a. f a = k) xs) = 1"
proof (induction xs)
  case Nil
  then show ?case by simp
next
  case (Cons x xs)
  show ?case
  proof (cases "f x = k")
    case True
    with Cons.prems have "\<forall>a \<in> set xs. f a \<noteq> k" by (auto simp: image_iff)
    then have "filter (\<lambda>a. f a = k) xs = []" by (simp add: filter_empty_conv)
    with True show ?thesis by simp
  next
    case False
    with Cons.prems have "k \<in> f ` set xs" by auto
    with Cons False show ?thesis by simp
  qed
qed

text \<open>
  On any page, an accepted anchor has exactly one record in the result: the one whose
  URL is the anchor's absolute URL.
\<close>

lemma one_record_per_url:
  assumes "l \<in> set links" and "accepted l"
  shows "length (filter (\<lambda>a. url_of a = PyStr (full_url_of (href l)))
                   (keep_first {} (collect_articles clock links []))) = 1"
proof -
  let ?C = "collect_articles clock links []"
  have "map url_of ?C = map (\<lambda>l. PyStr (full_url_of (href l))) (filter accepted links)"
    by (simp add: collect_articles_urls)
  then have "set (map url_of ?C)
               = set (map (\<lambda>l. PyStr (full_url_of (href l))) (filter accepted links))"
    by simp
  with assms have "PyStr (full_url_of (href l)) \<in> url_of ` set ?C"
    by auto
  then have "PyStr (full_url_of (href l)) \<in> url_of ` set (keep_first {} ?C)"
    by (simp add: keep_first_keys)
  with keep_first_distinct show ?thesis
    by (rule distinct_map_filter_eq1)
qed

lemma filter_url_getitem:
  assumes "\<forall>a \<in> set articles. toi_article a"
  shows "filter (\<lambda>a. getitem a ''url'' = Inr (PyStr u)) articles
           = filter (\<lambda>a. url_of a = PyStr u) articles"
proof (rule filter_cong [OF refl])
  fix a
  assume "a \<in> set articles"
  with assms have "has_url a" by (blast intro: toi_article_has_url)
  then show "(getitem a ''url'' = Inr (PyStr u)) = (url_of a = PyStr u)"
    by (simp add: getitem_url)
qed

lemma scrape_pair:
  assumes "accepted l1" and "accepted l2" and "full_url_of (href l1) = full_url_of (href l2)"
  shows "\<exists>a. scrape_times_of_india prints_all clock (Inr [l1, l2]) = Inr [a]
            \<and> getitem a ''url'' = Inr (PyStr (full_url_of (href l1)))"
  using assms
  by (simp add: scrape_Inr collect_articles_Cons url_of_def get_default_def article_dict_def
      getitem_def del: collect_articles.simps(2))

text \<open>
  C10. On every fetched page the scraper returns a batch in which every record has a
  URL that begins with \<open>http\<close>, namely the absolute URL of an accepted anchor of the
  page, and no two records have the same URL; conversely every accepted anchor of the
  page has exactly one record with its absolute URL. An \<open>href\<close> that begins with
  \<open>http\<close> is kept, any other is prefixed with the site's address, and the prefixed form
  of a relative \<open>href\<close> is mapped to the same URL; so a page that links one article
  relatively and absolutely, wherever on the page and in either order, gives a single
  record for it.
\<close>

theorem url_absolute_and_deduplicated:
  "\<exists>articles. scrape_times_of_india prints_all clock (Inr links) = Inr articles
     \<and> (\<forall>a \<in> set articles. \<exists>u. getitem a ''url'' = Inr (PyStr u) \<and> startswith u ''http'')
     \<and> (\<forall>a \<in> set articles. \<exists>l \<in> set links. accepted l
            \<and> getitem a ''url'' = Inr (PyStr (full_url_of (href l))))
     \<and> (\<forall>l \<in> set links. accepted l \<longrightarrow>
            length (filter (\<lambda>a. getitem a ''url'' = Inr (PyStr (full_url_of (href l))))
                      articles) = 1)
     \<and> distinct (map url_of articles)
     \<and> length (filter (\<lambda>a. url_of a = k) articles) \<le> 1
     \<and> (startswith h ''http'' \<longrightarrow> full_url_of h = h)
     \<and> (\<not> startswith h ''http'' \<longrightarrow>
           full_url_of h = base_url @ h \<and> full_url_of (base_url @ h) = full_url_of h)
     \<and> (l1 \<in> set links \<and> l2 \<in> set links \<and> (accepted l1 \<or> accepted l2)
          \<and> \<not> startswith (href l1) ''http'' \<and> href l2 = base_url @ href l1 \<longrightarrow>
          length (filter (\<lambda>a. getitem a ''url'' = Inr (PyStr (base_url @ href l1)))
                    articles) = 1)
     \<and> (accepted l1 \<and> accepted l2 \<and> \<not> startswith (href l1) ''http''
          \<and> href l2 = base_url @ href l1 \<longrightarrow>
          (\<exists>a. scrape_times_of_india prints_all clock (Inr [l1, l2]) = Inr [a]
              \<and> getitem a ''url'' = Inr (PyStr (base_url @ href l1)))
          \<and> (\<exists>a. scrape_times_of_india prints_all clock (Inr [l2, l1]) = Inr [a]
              \<and> getitem a ''url'' = Inr (PyStr (base_url @ href l1))))"
proof -
  let ?C = "collect_articles clock links []"
  let ?A = "keep_first {} ?C"
  have run: "scrape_times_of_india prints_all clock (Inr links) = Inr ?A"
    by (rule scrape_Inr)
  have arts: "\<forall>a \<in> set ?A. toi_article a"
    using run by (rule scrape_articles)
  then have http: "\<forall>a \<in> set ?A. \<exists>u. getitem a ''url'' = Inr (PyStr u) \<and> startswith u ''http''"
    using toi_article_fields full_url_startswith by blast
  have origin: "\<forall>a \<in> set ?A. \<exists>l \<in> set links. accepted l
            \<and> getitem a ''url'' = Inr (PyStr (full_url_of (href l)))"
  proof
    fix a
    assume "a \<in> set ?A"
    then have "a \<in> set ?C" using keep_first_subset by blast
    then obtain l n where "l \<in> set links" "accepted l"
      "a = article_dict (strip (get_text l)) (full_url_of (href l))
             (img_url_of (find_img l)) (category_of (full_url_of (href l))) n"
      using collect_articles_from [of a clock links "[]"] by auto
    then show "\<exists>l \<in> set links. accepted l
            \<and> getitem a ''url'' = Inr (PyStr (full_url_of (href l)))"
      using getitem_url_article_dict by blast
  qed
  have one: "\<forall>l \<in> set links. accepted l \<longrightarrow>
            length (filter (\<lambda>a. getitem a ''url'' = Inr (PyStr (full_url_of (href l)))) ?A) = 1"
    by (simp add: filter_url_getitem [OF arts] one_record_per_url)
  have dist: "distinct (map url_of ?A)"
    by (rule keep_first_distinct)
  then have le1: "length (filter (\<lambda>a. url_of a = k) ?A) \<le> 1"
    by (rule distinct_map_filter_le1)
  have keep: "startswith h ''http'' \<longrightarrow> full_url_of h = h"
    by (simp add: full_url_of_def)
  have pre: "\<not> startswith h ''http'' \<longrightarrow>
           full_url_of h = base_url @ h \<and> full_url_of (base_url @ h) = full_url_of h"
    by (simp add: full_url_of_def base_url_def)
  have both: "l1 \<in> set links \<and> l2 \<in> set links \<and> (accepted l1 \<or> accepted l2)
          \<and> \<not> startswith (href l1) ''http'' \<and> href l2 = base_url @ href l1 \<longrightarrow>
          length (filter (\<lambda>a. getitem a ''url'' = Inr (PyStr (base_url @ href l1))) ?A) = 1"
  proof (intro impI, elim conjE)
    assume in1: "l1 \<in> set links" and in2: "l2 \<in> set links"
      and acc: "accepted l1 \<or> accepted l2"
      and rel: "\<not> startswith (href l1) ''http''" and abs: "href l2 = base_url @ href l1"
    have u1: "full_url_of (href l1) = base_url @ href l1"
      using rel by (simp add: full_url_of_def)
    have u2: "full_url_of (href l2) = base_url @ href l1"
      using rel abs u1 by (simp add: full_url_absolute)
    from acc show "length (filter (\<lambda>a. getitem a ''url'' = Inr (PyStr (base_url @ href l1))) ?A) = 1"
    proof
      assume "accepted l1"
      with in1 one u1 show ?thesis by force
    next
      assume "accepted l2"
      with in2 one u2 show ?thesis by force
    qed
  qed
  have pair: "accepted l1 \<and> accepted l2 \<and> \<not> startswith (href l1) ''http''
          \<and> href l2 = base_url @ href l1 \<longrightarrow>
          (\<exists>a. scrape_times_of_india prints_all clock (Inr [l1, l2]) = Inr [a]
              \<and> getitem a ''url'' = Inr (PyStr (base_url @ href l1)))
          \<and> (\<exists>a. scrape_times_of_india prints_all clock (Inr [l2, l1]) = Inr [a]
              \<and> getitem a ''url'' = Inr (PyStr (base_url @ href l1)))"
  proof (intro impI, elim conjE)
    assume a: "accepted l1" "accepted l2" and rel: "\<not> startswith (href l1) ''http''"
      and abs: "href l2 = base_url @ href l1"
    have same: "full_url_of (href l1) = full_url_of (href l2)"
      using rel abs by (simp add: full_url_absolute)
    have u: "full_url_of (href l1) = base_url @ href l1"
      using rel by (simp add: full_url_of_def)
    show "(\<exists>a. scrape_times_of_india prints_all clock (Inr [l1, l2]) = Inr [a]
              \<and> getitem a ''url'' = Inr (PyStr (base_url @ href l1)))
          \<and> (\<exists>a. scrape_times_of_india prints_all clock (Inr [l2, l1]) = Inr [a]
              \<and> getitem a ''url'' = Inr (PyStr (base_url @ href l1)))"
      using scrape_pair [OF a(1) a(2) same, of clock]
        scrape_pair [OF a(2) a(1) same [symmetric], of clock] same u by simp
  qed
  show ?thesis
    by (intro exI [of _ ?A] conjI run http origin one dist le1 keep pre both pair)
qed

lemma run_page:
  "scrape_times_of_india prints_all sample_clock
     (Inr [link_rel, link_sports, link_abs, link_sports_india, link_rel])
     = Inr [art1, art_sports, art_sports_india]"
  by code_simp

lemma run_pair:
  "scrape_times_of_india prints_all sample_clock (Inr [link_rel, link_abs]) = Inr [art1]"
  by code_simp

lemma sample_links_accepted: "accepted link_rel \<and> accepted link_abs"
  by code_simp

lemma sample_links_related:
  "\<not> startswith (href link_rel) ''http'' \<and> href link_abs = base_url @ href link_rel"
  by code_simp

lemma sample_page_count:
  "length (filter (\<lambda>a. getitem a ''url'' = Inr (PyStr (base_url @ href link_rel)))
             [art1, art_sports, art_sports_india]) = 1"
  by code_simp

theorem url_absolute_and_deduplicated_witness:
  "scrape_times_of_india prints_all sample_clock
     (Inr [link_rel, link_sports, link_abs, link_sports_india, link_rel])
     = Inr [art1, art_sports, art_sports_india]
   \<and> link_rel \<in> set [link_rel, link_sports, link_abs, link_sports_india, link_rel]
   \<and> link_abs \<in> set [link_rel, link_sports, link_abs, link_sports_india, link_rel]
   \<and> accepted link_rel \<and> accepted link_abs
   \<and> \<not> startswith (href link_rel) ''http''
   \<and> href link_abs = base_url @ href link_rel
   \<and> full_url_of (href link_rel) = base_url @ href link_rel
   \<and> length (filter (\<lambda>a. getitem a ''url'' = Inr (PyStr (base_url @ href link_rel)))
               [art1, art_sports, art_sports_india]) = 1
   \<and> scrape_times_of_india prints_all sample_clock (Inr [link_rel, link_abs]) = Inr [art1]
   \<and> getitem art1 ''url'' = Inr (PyStr (base_url @ href link_rel))
   \<and> startswith (base_url @ href link_rel) ''http''"
proof -
  let ?page = "[link_rel, link_sports, link_abs, link_sports_india, link_rel]"
  have mem: "link_rel \<in> set ?page" "link_abs \<in> set ?page"
    by simp_all
  have acc: "accepted link_rel" "accepted link_abs"
    using sample_links_accepted by simp_all
  have rel: "\<not> startswith (href link_rel) ''http''" "href link_abs = base_url @ href link_rel"
    using sample_links_related by simp_all
  obtain articles where
    run: "scrape_times_of_india prints_all sample_clock (Inr ?page) = Inr articles" and
    pre: "\<not> startswith (href link_rel) ''http'' \<longrightarrow>
           full_url_of (href link_rel) = base_url @ href link_rel
           \<and> full_url_of (base_url @ href link_rel) = full_url_of (href link_rel)" and
    both: "link_rel \<in> set ?page \<and> link_abs \<in> set ?page \<and> (accepted link_rel \<or> accepted link_abs)
          \<and> \<not> startswith (href link_rel) ''http'' \<and> href link_abs = base_url @ href link_rel \<longrightarrow>
          length (filter (\<lambda>a. getitem a ''url'' = Inr (PyStr (base_url @ href link_rel)))
                    articles) = 1" and
    http: "\<forall>a \<in> set articles. \<exists>u. getitem a ''url'' = Inr (PyStr u) \<and> startswith u ''http''"
    using url_absolute_and_deduplicated
      [of sample_clock ?page "url_of art1" "href link_rel" link_rel link_abs]
    by (elim exE conjE) (rule that)
  from run have articles: "articles = [art1, art_sports, art_sports_india]"
    by (simp add: run_page)
  from both mem acc rel have count:
    "length (filter (\<lambda>a. getitem a ''url'' = Inr (PyStr (base_url @ href link_rel)))
               [art1, art_sports, art_sports_india]) = 1"
    unfolding articles by blast
  from pre rel have full: "full_url_of (href link_rel) = base_url @ href link_rel"
    by blast
  have url: "getitem art1 ''url'' = Inr (PyStr (base_url @ href link_rel))"
    by code_simp
  from http have "\<exists>u. getitem art1 ''url'' = Inr (PyStr u) \<and> startswith u ''http''"
    unfolding articles by simp
  with url have start: "startswith (base_url @ href link_rel) ''http''"
    by simp
  show ?thesis
    by (intro conjI run_page mem acc rel full count run_pair url start)
qed

section \<open>Properties of the writers\<close>


































lemma getitem_present:
  "k \<in> set (keys d) \<Longrightarrow> getitem d k = Inr (get_default d k dflt)"
  by (auto simp: keys_def getitem_def get_default_def map_of_eq_None_iff split: option.splits)

lemma getitems_present:
  "set ks \<subseteq> set (keys d) \<Longrightarrow> getitems d ks = Inr (map (\<lambda>k. get_default d k dflt) ks)"
  by (induction ks) (simp_all add: getitem_present [where dflt = dflt])

lemma write_chunk_NoFault: "write_chunk NoFault c w = Inr (w @ [c])"
  by (simp add: write_chunk_def NoFault_def)

lemma writerows_ok:
  "\<forall>d \<in> set data. set (keys d) \<subseteq> set fn \<Longrightarrow>
   writerows NoFault fn data w =
     (None, w @ map (\<lambda>d. Row (map (\<lambda>k. get_default d k (PyStr '''')) fn)) data)"
proof (induction data arbitrary: w)
  case Nil
  show ?case by simp
next
  case (Cons d data)
  from Cons.prems have "dict_to_list fn d = Inr (map (\<lambda>k. get_default d k (PyStr '''')) fn)"
    by (auto simp: dict_to_list_def)
  moreover from Cons.prems have "\<forall>d \<in> set data. set (keys d) \<subseteq> set fn" by simp
  ultimately show ?case
    by (simp add: write_chunk_NoFault Cons.IH)
qed

lemma toi_write_rows_ok:
  "\<forall>a \<in> set articles. set toi_columns \<subseteq> set (keys a) \<Longrightarrow>
   toi_write_rows NoFault articles w =
     (None, w @ map (\<lambda>a. Row (map (\<lambda>k. get_default a k (PyStr '''')) toi_columns)) articles)"
proof (induction articles arbitrary: w)
  case Nil
  show ?case by simp
next
  case (Cons a articles)
  from Cons.prems have "getitems a toi_columns
      = Inr (map (\<lambda>k. get_default a k (PyStr '''')) toi_columns)"
    by (simp add: getitems_present)
  moreover from Cons.prems have "\<forall>a \<in> set articles. set toi_columns \<subseteq> set (keys a)" by simp
  ultimately show ?case
    by (simp add: write_chunk_NoFault Cons.IH)
qed

lemma with_open_NoFault:
  "with_open NoFault filename fs (raised, written) = (raised, fs(filename \<mapsto> written))"
  by (simp add: with_open_def open_w_def NoFault_def)

lemma then_report_prints_all: "then_report prints_all line (None, fs) = (None, fs)"
  by (simp add: then_report_def py_print_def prints_all_def)

text \<open>
  C2, as amended. Without an I/O failure, the Reddit writer, given a non-empty batch in
  which no record has a field outside those of the first record, writes the field names
  of the first record, in their order, as the header row and then one row for each
  record, in batch order, a missing field as the empty string. The news scraper's
  writer, given records that have its six fields, writes its fixed header row and then
  one row for each record, in batch order.
\<close>

theorem csv_header_and_rows:
  "(data = first # rest \<and> (\<forall>d \<in> set data. set (keys d) \<subseteq> set (keys first)) \<longrightarrow>
      save_to_csv prints_all NoFault data filename fs =
        (Inr True,
         fs(filename \<mapsto>
              Row (map PyStr (keys first))
              # map (\<lambda>d. Row (map (\<lambda>k. get_default d k (PyStr '''')) (keys first))) data)))
   \<and> ((\<forall>a \<in> set articles. set toi_columns \<subseteq> set (keys a)) \<longrightarrow>
      toi_save_to_csv prints_all NoFault articles filename fs =
        (Inr True,
         fs(filename \<mapsto>
              Row toi_header
              # map (\<lambda>a. Row (map (\<lambda>k. get_default a k (PyStr '''')) toi_columns)) articles)))"
proof (intro conjI impI)
  assume "data = first # rest \<and> (\<forall>d \<in> set data. set (keys d) \<subseteq> set (keys first))"
  then have data: "data = first # rest"
    and sub: "\<forall>d \<in> set data. set (keys d) \<subseteq> set (keys first)" by simp_all
  have "writerows NoFault (keys first) data [Row (map PyStr (keys first))] =
     (None, [Row (map PyStr (keys first))]
        @ map (\<lambda>d. Row (map (\<lambda>k. get_default d k (PyStr '''')) (keys first))) data)"
    using sub by (rule writerows_ok)
  then have "csv_with_block NoFault data =
     (None, Row (map PyStr (keys first))
        # map (\<lambda>d. Row (map (\<lambda>k. get_default d k (PyStr '''')) (keys first))) data)"
    unfolding data
    by (simp add: csv_with_block_def write_chunk_NoFault Let_def del: writerows.simps)
  then have "save_csv_body prints_all NoFault data filename fs =
     (None, fs(filename \<mapsto> Row (map PyStr (keys first))
        # map (\<lambda>d. Row (map (\<lambda>k. get_default d k (PyStr '''')) (keys first))) data))"
    by (simp add: save_csv_body_def with_open_NoFault then_report_prints_all)
  then show "save_to_csv prints_all NoFault data filename fs =
        (Inr True,
         fs(filename \<mapsto>
              Row (map PyStr (keys first))
              # map (\<lambda>d. Row (map (\<lambda>k. get_default d k (PyStr '''')) (keys first))) data))"
    by (simp add: save_to_csv_def except_return_False_def data)
next
  assume "\<forall>a \<in> set articles. set toi_columns \<subseteq> set (keys a)"
  then have "toi_write_rows NoFault articles [Row toi_header] =
     (None, [Row toi_header]
        @ map (\<lambda>a. Row (map (\<lambda>k. get_default a k (PyStr '''')) toi_columns)) articles)"
    by (rule toi_write_rows_ok)
  then have "toi_with_block NoFault articles =
     (None, Row toi_header
        # map (\<lambda>a. Row (map (\<lambda>k. get_default a k (PyStr '''')) toi_columns)) articles)"
    by (simp add: toi_with_block_def write_chunk_NoFault del: toi_write_rows.simps)
  then have "toi_save_body prints_all NoFault articles filename fs =
     (None, fs(filename \<mapsto> Row toi_header
        # map (\<lambda>a. Row (map (\<lambda>k. get_default a k (PyStr '''')) toi_columns)) articles))"
    by (simp add: toi_save_body_def with_open_NoFault then_report_prints_all)
  then show "toi_save_to_csv prints_all NoFault articles filename fs =
        (Inr True,
         fs(filename \<mapsto>
              Row toi_header
              # map (\<lambda>a. Row (map (\<lambda>k. get_default a k (PyStr '''')) toi_columns)) articles))"
    by (simp add: toi_save_to_csv_def except_return_False_def)
qed

lemma sample_keys:
  "set (keys art1) \<subseteq> set (keys art1) \<and> set (keys art2) \<subseteq> set (keys art1)
   \<and> set toi_columns \<subseteq> set (keys art1) \<and> set toi_columns \<subseteq> set (keys art2)"
  by code_simp

lemma sample_csv:
  "snd (save_to_csv prints_all NoFault [art1, art2] ''posts.csv'' Map.empty) ''posts.csv''
     = Some [Row [PyStr ''title'', PyStr ''url'', PyStr ''image'', PyStr ''category'',
                  PyStr ''source'', PyStr ''scraped_at''],
             Row [PyStr ''Monsoon reaches the coast'',
                  PyStr ''https://timesofindia.indiatimes.com/india/monsoon/articleshow/1.cms'',
                  PyStr '''', PyStr ''India News'', PyStr ''Times of India'',
                  PyStr ''2024-01-01 00:00:00''],
             Row [PyStr ''Markets close at a high'',
                  PyStr ''https://timesofindia.indiatimes.com/business/markets/articleshow/2.cms'',
                  PyStr '''', PyStr ''Business'', PyStr ''Times of India'',
                  PyStr ''2024-01-01 00:00:00'']]"
  by code_simp

theorem csv_header_and_rows_witness:
  "set (keys art1) \<subseteq> set (keys art1) \<and> set (keys art2) \<subseteq> set (keys art1)
   \<and> set toi_columns \<subseteq> set (keys art1) \<and> set toi_columns \<subseteq> set (keys art2)
   \<and> save_to_csv prints_all NoFault [art1, art2] ''posts.csv'' Map.empty =
        (Inr True,
         [''posts.csv'' \<mapsto>
            Row (map PyStr (keys art1))
            # map (\<lambda>d. Row (map (\<lambda>k. get_default d k (PyStr '''')) (keys art1))) [art1, art2]])
   \<and> toi_save_to_csv prints_all NoFault [art1, art2] ''posts.csv'' Map.empty =
        (Inr True,
         [''posts.csv'' \<mapsto>
            Row toi_header
            # map (\<lambda>a. Row (map (\<lambda>k. get_default a k (PyStr '''')) toi_columns)) [art1, art2]])
   \<and> snd (save_to_csv prints_all NoFault [art1, art2] ''posts.csv'' Map.empty) ''posts.csv''
     = Some [Row [PyStr ''title'', PyStr ''url'', PyStr ''image'', PyStr ''category'',
                  PyStr ''source'', PyStr ''scraped_at''],
             Row [PyStr ''Monsoon reaches the coast'',
                  PyStr ''https://timesofindia.indiatimes.com/india/monsoon/articleshow/1.cms'',
                  PyStr '''', PyStr ''India News'', PyStr ''Times of India'',
                  PyStr ''2024-01-01 00:00:00''],
             Row [PyStr ''Markets close at a high'',
                  PyStr ''https://timesofindia.indiatimes.com/business/markets/articleshow/2.cms'',
                  PyStr '''', PyStr ''Business'', PyStr ''Times of India'',
                  PyStr ''2024-01-01 00:00:00'']]"
proof -
  have k: "\<forall>d \<in> set [art1, art2]. set (keys d) \<subseteq> set (keys art1)"
    "\<forall>a \<in> set [art1, art2]. set toi_columns \<subseteq> set (keys a)"
    using sample_keys by simp_all
  show ?thesis
    using csv_header_and_rows [of "[art1, art2]" art1 "[art2]" "''posts.csv''" Map.empty "[art1, art2]"]
      k sample_keys sample_csv
    by blast
qed

text \<open>
  C2 as it is stated fails for the news scraper's writer: its header row is the fixed
  list of line 102, not the field names of the first record.
\<close>

theorem csv_header_counterexample:
  "fst (toi_save_to_csv prints_all NoFault [art1] ''out.csv'' Map.empty) = Inr True
   \<and> snd (toi_save_to_csv prints_all NoFault [art1] ''out.csv'' Map.empty) ''out.csv''
      = Some [Row [PyStr ''Title'', PyStr ''URL'', PyStr ''Image_URL'', PyStr ''Category'',
                   PyStr ''Source'', PyStr ''Scraped_At''],
              Row [PyStr ''Monsoon reaches the coast'',
                   PyStr ''https://timesofindia.indiatimes.com/india/monsoon/articleshow/1.cms'',
                   PyStr '''', PyStr ''India News'', PyStr ''Times of India'',
                   PyStr ''2024-01-01 00:00:00'']]
   \<and> keys art1 = [''title'', ''url'', ''image'', ''category'', ''source'', ''scraped_at'']
   \<and> [PyStr ''Title'', PyStr ''URL'', PyStr ''Image_URL'', PyStr ''Category'',
       PyStr ''Source'', PyStr ''Scraped_At''] \<noteq> map PyStr (keys art1)"
  by code_simp

text \<open>
  C1, as amended. On an empty batch both Reddit writers return \<open>False\<close> and leave the
  file system as it was. The news scraper's writer has no such check: without an I/O
  failure it writes a file that holds the header row and returns \<open>True\<close>; but \<open>main\<close>
  returns before the writer is called when the scrape gave no article.
\<close>

theorem empty_batch_write:
  "save_to_csv prints_all fault [] filename fs = (Inr False, fs)
   \<and> save_to_json prints_all dump_writes fault [] filename fs = (Inr False, fs)
   \<and> toi_save_to_csv prints_all NoFault [] filename fs
       = (Inr True, fs(filename \<mapsto> [Row toi_header]))
   \<and> (scrape_times_of_india prints_all clock page = Inr [] \<longrightarrow>
        toi_main prints_all clock page fault fs = (Inr (), fs))"
  by (simp add: save_to_csv_def save_to_json_def toi_save_to_csv_def toi_save_body_def
      toi_with_block_def with_open_NoFault then_report_prints_all
      except_return_False_def write_chunk_NoFault toi_main_def py_print_def
      prints_all_def)

lemma run_unreachable:
  "scrape_times_of_india prints_all sample_clock (Inl ConnectionError) = Inr []"
  by code_simp

theorem empty_batch_write_witness:
  "scrape_times_of_india prints_all sample_clock (Inl ConnectionError) = Inr []
   \<and> toi_main prints_all sample_clock (Inl ConnectionError) NoFault Map.empty
       = (Inr (), Map.empty)
   \<and> save_to_csv prints_all NoFault [] ''posts.csv'' Map.empty = (Inr False, Map.empty)
   \<and> save_to_json prints_all sample_dump_writes NoFault [] ''posts.json'' Map.empty
       = (Inr False, Map.empty)"
  using empty_batch_write
      [of NoFault "''posts.csv''" Map.empty sample_dump_writes sample_clock "Inl ConnectionError"]
    empty_batch_write
      [of NoFault "''posts.json''" Map.empty sample_dump_writes sample_clock "Inl ConnectionError"]
    run_unreachable
  by simp

text \<open>
  C1 as it is stated fails for the news scraper's writer: on an empty batch it creates
  the file, with the header row only, and returns \<open>True\<close>.
\<close>

theorem empty_batch_write_counterexample:
  "fst (toi_save_to_csv prints_all NoFault [] ''out.csv'' Map.empty) = Inr True
   \<and> snd (toi_save_to_csv prints_all NoFault [] ''out.csv'' Map.empty) ''out.csv''
       = Some [Row toi_header]
   \<and> Map.empty ''out.csv'' = (None :: chunk list option)"
  by code_simp

text \<open>
  Whatever the console, an empty batch makes neither Reddit writer touch the file
  system or report success, and a scrape that gave nothing makes \<open>main\<close> leave the file
  system as it was.
\<close>

lemma empty_batch_any_console:
  "snd (save_to_csv console fault [] filename fs) = fs
   \<and> fst (save_to_csv console fault [] filename fs) \<noteq> Inr True
   \<and> snd (save_to_json console dump_writes fault [] filename fs) = fs
   \<and> fst (save_to_json console dump_writes fault [] filename fs) \<noteq> Inr True
   \<and> (scrape_times_of_india console clock page = Inr [] \<longrightarrow>
        snd (toi_main console clock page fault fs) = fs)"
  by (simp add: save_to_csv_def save_to_json_def toi_main_def py_print_def
      split: option.splits)

section \<open>Properties of the Reddit scraper\<close>

lemma selftext_post_data:
  "getitem (post_data e s scraped) ''selftext'' = Inr (PyStr (truncated 500 (selftext s)))"
  by (simp add: post_data_def getitem_def)

lemma selftext_search_post_data:
  "getitem (search_post_data e query s scraped) ''selftext''
     = Inr (PyStr (truncated 300 (selftext s)))"
  by (simp add: search_post_data_def getitem_def)

lemma selftext_user_post_data:
  "getitem (user_post_data e username s scraped) ''selftext''
     = Inr (PyStr (truncated 300 (selftext s)))"
  by (simp add: user_post_data_def getitem_def)

lemma truncated_long:
  "n \<le> length t \<Longrightarrow> 0 < n \<Longrightarrow>
   truncated n (Some t) = take n t \<and> length (take n t) = n \<and> prefix (take n t) t"
  by (auto simp: truncated_def take_is_prefix)

lemma truncated_empty: "truncated n None = '''' \<and> truncated n (Some '''') = ''''"
  by (simp add: truncated_def)

lemma build_posts_fields:
  assumes "\<And>s scraped. getitem (mk s scraped) k = f s"
  shows "map (\<lambda>d. getitem d k) (build_posts mk clock items posts)
           = map (\<lambda>d. getitem d k) posts @ map f items"
  by (induction items arbitrary: posts) (simp_all add: assms)

lemma after_print_prints_all: "after_print prints_all line rest = rest"
  by (simp add: after_print_def py_print_def prints_all_def)

lemma then_print_prints_all: "then_print prints_all line r = r"
  by (cases r) (simp_all add: then_print_def py_print_def prints_all_def)

text \<open>
  C6. A text of at least 500 characters is stored in a subreddit post's record as its
  first 500 characters, and a text of at least 300 characters in a search or user
  post's record as its first 300; an empty or absent text is stored as the empty
  string, the field being present in each case. The batches returned by the three
  fetch operations hold, record by record, the texts of the items cut in this way.
\<close>

theorem selftext_truncated:
  "(selftext s = Some t \<and> 500 \<le> length t \<longrightarrow>
      getitem (post_data e s scraped) ''selftext'' = Inr (PyStr (take 500 t))
      \<and> length (take 500 t) = 500 \<and> prefix (take 500 t) t)
   \<and> (selftext s = Some t \<and> 300 \<le> length t \<longrightarrow>
      getitem (search_post_data e query s scraped) ''selftext'' = Inr (PyStr (take 300 t))
      \<and> getitem (user_post_data e username s scraped) ''selftext'' = Inr (PyStr (take 300 t))
      \<and> length (take 300 t) = 300 \<and> prefix (take 300 t) t)
   \<and> (selftext s = None \<or> selftext s = Some '''' \<longrightarrow>
      getitem (post_data e s scraped) ''selftext'' = Inr (PyStr '''')
      \<and> getitem (search_post_data e query s scraped) ''selftext'' = Inr (PyStr '''')
      \<and> getitem (user_post_data e username s scraped) ''selftext'' = Inr (PyStr ''''))
   \<and> (subreddit_submissions api name sort_type limit tf = Listing items None \<longrightarrow>
        (\<exists>batch. get_subreddit_posts prints_all e api name sort_type limit tf = Inr batch
           \<and> map (\<lambda>d. getitem d ''selftext'') batch
               = map (\<lambda>s. Inr (PyStr (truncated 500 (selftext s)))) items))
   \<and> (search_results api query subreddit sort' tf limit = Listing items None \<longrightarrow>
        (\<exists>batch. search_reddit prints_all e api query subreddit sort' tf limit = Inr batch
           \<and> map (\<lambda>d. getitem d ''selftext'') batch
               = map (\<lambda>s. Inr (PyStr (truncated 300 (selftext s)))) items))
   \<and> (user_submissions api username sort' limit = Listing items None \<longrightarrow>
        (\<exists>batch. get_user_posts prints_all e api username sort' limit = Inr batch
           \<and> map (\<lambda>d. getitem d ''selftext'') batch
               = map (\<lambda>s. Inr (PyStr (truncated 300 (selftext s)))) items))"
proof -
  have long500: "selftext s = Some t \<and> 500 \<le> length t \<longrightarrow>
      getitem (post_data e s scraped) ''selftext'' = Inr (PyStr (take 500 t))
      \<and> length (take 500 t) = 500 \<and> prefix (take 500 t) t"
    using truncated_long [of 500 t] by (simp add: selftext_post_data)
  have long300: "selftext s = Some t \<and> 300 \<le> length t \<longrightarrow>
      getitem (search_post_data e query s scraped) ''selftext'' = Inr (PyStr (take 300 t))
      \<and> getitem (user_post_data e username s scraped) ''selftext'' = Inr (PyStr (take 300 t))
      \<and> length (take 300 t) = 300 \<and> prefix (take 300 t) t"
    using truncated_long [of 300 t]
    by (simp add: selftext_search_post_data selftext_user_post_data)
  have empty: "selftext s = None \<or> selftext s = Some '''' \<longrightarrow>
      getitem (post_data e s scraped) ''selftext'' = Inr (PyStr '''')
      \<and> getitem (search_post_data e query s scraped) ''selftext'' = Inr (PyStr '''')
      \<and> getitem (user_post_data e username s scraped) ''selftext'' = Inr (PyStr '''')"
    using truncated_empty [of 500] truncated_empty [of 300]
    by (auto simp: selftext_post_data selftext_search_post_data selftext_user_post_data)
  have sub: "subreddit_submissions api name sort_type limit tf = Listing items None \<longrightarrow>
        (\<exists>batch. get_subreddit_posts prints_all e api name sort_type limit tf = Inr batch
           \<and> map (\<lambda>d. getitem d ''selftext'') batch
               = map (\<lambda>s. Inr (PyStr (truncated 500 (selftext s)))) items)"
    by (simp add: get_subreddit_posts_def for_listing_def except_return_empty_def
        after_print_prints_all then_print_prints_all
        build_posts_fields [OF selftext_post_data])
  have search: "search_results api query subreddit sort' tf limit = Listing items None \<longrightarrow>
        (\<exists>batch. search_reddit prints_all e api query subreddit sort' tf limit = Inr batch
           \<and> map (\<lambda>d. getitem d ''selftext'') batch
               = map (\<lambda>s. Inr (PyStr (truncated 300 (selftext s)))) items)"
    by (simp add: search_reddit_def for_listing_def except_return_empty_def
        after_print_prints_all then_print_prints_all
        build_posts_fields [OF selftext_search_post_data])
  have user: "user_submissions api username sort' limit = Listing items None \<longrightarrow>
        (\<exists>batch. get_user_posts prints_all e api username sort' limit = Inr batch
           \<and> map (\<lambda>d. getitem d ''selftext'') batch
               = map (\<lambda>s. Inr (PyStr (truncated 300 (selftext s)))) items)"
    by (simp add: get_user_posts_def for_listing_def except_return_empty_def
        after_print_prints_all then_print_prints_all
        build_posts_fields [OF selftext_user_post_data])
  show ?thesis
    by (intro conjI long500 long300 empty sub search user)
qed


text \<open>
  C9. A sort type outside the five known ones makes \<open>get_subreddit_posts\<close> ask for the
  hot listing and return what it returns for \<open>hot\<close>; a sort outside the four known ones
  makes \<open>get_user_posts\<close> ask for the new listing and return what it returns for \<open>new\<close>.
\<close>

theorem unknown_sort_defaults:
  "(sort_type \<notin> {''hot'', ''new'', ''rising'', ''top'', ''controversial''} \<longrightarrow>
      subreddit_submissions api name sort_type limit tf = subreddit_hot api name limit
      \<and> get_subreddit_posts console e api name sort_type limit tf
          = get_subreddit_posts console e api name ''hot'' limit tf)
   \<and> (sort' \<notin> {''hot'', ''new'', ''top'', ''controversial''} \<longrightarrow>
      user_submissions api username sort' limit = user_new api username limit
      \<and> get_user_posts console e api username sort' limit
          = get_user_posts console e api username ''new'' limit)"
  by (simp add: subreddit_submissions_def get_subreddit_posts_def user_submissions_def
      get_user_posts_def)

lemma sample_long_text:
  "selftext (sample_submission ''long'' (Some (replicate 600 CHR ''a'')))
     = Some (replicate 600 CHR ''a'')
   \<and> 500 \<le> length (replicate 600 CHR ''a'') \<and> 300 \<le> length (replicate 600 CHR ''a'')"
  by (simp add: sample_submission_def)

lemma sample_no_text: "selftext (sample_submission ''none'' None) = None"
  by (simp add: sample_submission_def)

lemma sample_hot_listing:
  "subreddit_submissions sample_api ''python'' ''hot'' 25 ''all''
     = Listing [sample_submission ''hot'' None] None"
  by (simp add: subreddit_submissions_def sample_api_def)

theorem selftext_truncated_witness:
  "selftext (sample_submission ''long'' (Some (replicate 600 CHR ''a'')))
     = Some (replicate 600 CHR ''a'')
   \<and> 500 \<le> length (replicate 600 CHR ''a'')
   \<and> getitem (post_data sample_env (sample_submission ''long'' (Some (replicate 600 CHR ''a'')))
         ''2024-06-01 12:00:00'') ''selftext'' = Inr (PyStr (replicate 500 CHR ''a''))
   \<and> getitem (search_post_data sample_env ''decorators''
         (sample_submission ''long'' (Some (replicate 600 CHR ''a'')))
         ''2024-06-01 12:00:00'') ''selftext'' = Inr (PyStr (replicate 300 CHR ''a''))
   \<and> getitem (user_post_data sample_env ''someone''
         (sample_submission ''long'' (Some (replicate 600 CHR ''a'')))
         ''2024-06-01 12:00:00'') ''selftext'' = Inr (PyStr (replicate 300 CHR ''a''))
   \<and> selftext (sample_submission ''none'' None) = None
   \<and> getitem (post_data sample_env (sample_submission ''none'' None)
         ''2024-06-01 12:00:00'') ''selftext'' = Inr (PyStr '''')
   \<and> subreddit_submissions sample_api ''python'' ''hot'' 25 ''all''
       = Listing [sample_submission ''hot'' None] None
   \<and> (\<exists>batch. get_subreddit_posts prints_all sample_env sample_api ''python'' ''hot'' 25 ''all''
                  = Inr batch
         \<and> map (\<lambda>d. getitem d ''selftext'') batch = [Inr (PyStr '''')])"
proof -
  note long = selftext_truncated
    [where s = "sample_submission ''long'' (Some (replicate 600 CHR ''a''))"
       and t = "replicate 600 CHR ''a''" and e = sample_env
       and scraped = "''2024-06-01 12:00:00''" and query = "''decorators''"
       and username = "''someone''"]
  note none = selftext_truncated
    [where s = "sample_submission ''none'' None" and e = sample_env
       and scraped = "''2024-06-01 12:00:00''" and api = sample_api and name = "''python''"
       and sort_type = "''hot''" and limit = 25 and tf = "''all''"
       and items = "[sample_submission ''hot'' None]"]
  have cut: "truncated 500 (selftext (sample_submission ''hot'' None)) = ''''"
    by (simp add: sample_submission_def truncated_def)
  have a: "getitem (post_data sample_env (sample_submission ''long'' (Some (replicate 600 CHR ''a'')))
         ''2024-06-01 12:00:00'') ''selftext'' = Inr (PyStr (replicate 500 CHR ''a''))"
    using long sample_long_text by simp
  have b: "getitem (search_post_data sample_env ''decorators''
         (sample_submission ''long'' (Some (replicate 600 CHR ''a'')))
         ''2024-06-01 12:00:00'') ''selftext'' = Inr (PyStr (replicate 300 CHR ''a''))"
    using long sample_long_text by simp
  have c: "getitem (user_post_data sample_env ''someone''
         (sample_submission ''long'' (Some (replicate 600 CHR ''a'')))
         ''2024-06-01 12:00:00'') ''selftext'' = Inr (PyStr (replicate 300 CHR ''a''))"
    using long sample_long_text by simp
  have d: "getitem (post_data sample_env (sample_submission ''none'' None)
         ''2024-06-01 12:00:00'') ''selftext'' = Inr (PyStr '''')"
    using none sample_no_text by simp
  have e: "\<exists>batch. get_subreddit_posts prints_all sample_env sample_api ''python'' ''hot'' 25 ''all''
                  = Inr batch
         \<and> map (\<lambda>d. getitem d ''selftext'') batch = [Inr (PyStr '''')]"
    using none sample_hot_listing cut by simp
  show ?thesis
    using a b c d e sample_long_text sample_no_text sample_hot_listing by simp
qed





lemma sample_sorts_differ:
  "get_subreddit_posts prints_all sample_env sample_api ''python'' ''best'' 25 ''all''
     \<noteq> get_subreddit_posts prints_all sample_env sample_api ''python'' ''new'' 25 ''all''
   \<and> get_user_posts prints_all sample_env sample_api ''someone'' ''best'' 25
     \<noteq> get_user_posts prints_all sample_env sample_api ''someone'' ''hot'' 25"
  by code_simp

theorem unknown_sort_defaults_witness:
  "''best'' \<notin> {''hot'', ''new'', ''rising'', ''top'', ''controversial''}
   \<and> get_subreddit_posts prints_all sample_env sample_api ''python'' ''best'' 25 ''all''
       = get_subreddit_posts prints_all sample_env sample_api ''python'' ''hot'' 25 ''all''
   \<and> get_subreddit_posts prints_all sample_env sample_api ''python'' ''best'' 25 ''all''
       \<noteq> get_subreddit_posts prints_all sample_env sample_api ''python'' ''new'' 25 ''all''
   \<and> ''best'' \<notin> {''hot'', ''new'', ''top'', ''controversial''}
   \<and> get_user_posts prints_all sample_env sample_api ''someone'' ''best'' 25
       = get_user_posts prints_all sample_env sample_api ''someone'' ''new'' 25
   \<and> get_user_posts prints_all sample_env sample_api ''someone'' ''best'' 25
       \<noteq> get_user_posts prints_all sample_env sample_api ''someone'' ''hot'' 25"
  using unknown_sort_defaults [of "''best''" sample_api "''python''" 25 "''all''" prints_all
      sample_env "''best''" "''someone''"]
    sample_sorts_differ
  by simp


end
